theory Spec2Isabelle
  imports Complex_Main "HOL-Library.AList" "HOL-Library.Log_Nat"
begin

section \<open>Numbers\<close>

text \<open>
  The dashboard is TypeScript; every amount, rate and day count is a JavaScript
  \<^verbatim>\<open>number\<close>, an IEEE 754 double. The embedding reads a \<^verbatim>\<open>number\<close> as the
  real number that the double holds; \<^verbatim>\<open>NaN\<close> and the infinities have no
  counterpart (where the source tests for \<^verbatim>\<open>NaN\<close>, as in
  \<^verbatim>\<open>parseFloat(v) || 0\<close>, the parsed text is an optional number).

  An arithmetic operation of JavaScript is the exact operation followed by rounding to
  the nearest double, a tie going to the even significand. The proportional allocator
  divides and multiplies, and its results depend on that rounding: there every operation
  is written with the rounding \<open>fl\<close>. The other parts of the code add amounts and compare
  them; their sums are written exact.

  \<^verbatim>\<open>Math.round(x)\<close> is the integer nearest to the double \<open>x\<close>, a tie going up:
  it is \<open>\<lfloor>x + 1/2\<rfloor>\<close>, with no rounding of the sum.
\<close>

type_synonym number = real

definition Math_round :: "number \<Rightarrow> number" where
  "Math_round x = of_int \<lfloor>x + 1 / 2\<rfloor>"

text \<open>Rounding a real to the nearest integer, a tie going to the even one.\<close>

definition rne :: "real \<Rightarrow> int" where
  "rne y =
     (let f = \<lfloor>y\<rfloor>; r = y - of_int f in
      if r < 1 / 2 then f else if r > 1 / 2 then f + 1 else if even f then f else f + 1)"

text \<open>The binary exponent of a positive real: the \<open>e\<close> with \<open>2\<^sup>e \<le> x < 2\<^sup>e\<^sup>+\<^sup>1\<close>,
  read off the bit length of \<open>\<lfloor>x\<rfloor>\<close> when \<open>x \<ge> 1\<close> and of \<open>\<lceil>1/x\<rceil> - 1\<close> below.\<close>

definition binaryExponent :: "real \<Rightarrow> int" where
  "binaryExponent x = (if 1 \<le> x then bitlen \<lfloor>x\<rfloor> - 1 else - bitlen (\<lceil>1 / x\<rceil> - 1))"

text \<open>
  Rounding to the nearest double: the significand has 53 bits, so a number with binary
  exponent \<open>e\<close> is rounded to a multiple of \<open>2\<^sup>e\<^sup>-\<^sup>5\<^sup>2\<close>; below \<open>2\<^sup>-\<^sup>1\<^sup>0\<^sup>2\<^sup>2\<close> the doubles are
  the multiples of \<open>2\<^sup>-\<^sup>1\<^sup>0\<^sup>7\<^sup>4\<close>. Overflow to an infinity is outside the model.
\<close>

definition fl :: "real \<Rightarrow> real" where
  "fl x =
     (if x = 0 then 0
      else
        let e = max (binaryExponent \<bar>x\<bar>) (- 1022); q = 2 powi (e - 52)
        in sgn x * (of_int (rne (\<bar>x\<bar> / q)) * q))"

text \<open>\<^verbatim>\<open>v || 0\<close> for an optional number: \<^verbatim>\<open>null\<close>, \<^verbatim>\<open>undefined\<close>,
  \<^verbatim>\<open>NaN\<close> and \<^verbatim>\<open>0\<close> all give \<open>0\<close>.\<close>

fun orZero :: "number option \<Rightarrow> number" where
  "orZero None = 0"
| "orZero (Some v) = v"

text \<open>\<^verbatim>\<open>!!v\<close> for an optional number: false for \<^verbatim>\<open>null\<close> and for \<open>0\<close>.\<close>

fun truthy :: "number option \<Rightarrow> bool" where
  "truthy None = False"
| "truthy (Some v) = (v \<noteq> 0)"

text \<open>\<^verbatim>\<open>Object.values(o).reduce((s, d) => s + d, 0)\<close> over an object whose
  entries are the pairs of an association list.\<close>

definition sumValues :: "('k \<times> number) list \<Rightarrow> number" where
  "sumValues obj = foldl (\<lambda>s d. s + d) 0 (map snd obj)"

section \<open>Employees and the accrual calculator (salaryStore.ts)\<close>

text \<open>An entry of \<^verbatim>\<open>mockEmployees\<close>, with the fields the finance code reads.
  \<^verbatim>\<open>contractRate\<close> is \<^verbatim>\<open>number | null\<close>.\<close>

record employee =
  emp_id :: string
  fullName :: string
  roles :: "string list"
  dailyRate :: number
  contractRate :: "number option"

text \<open>\<^verbatim>\<open>demoMonthlyTime\<close>: employee id, then month, then the days per project.\<close>

type_synonym time_data = "(string \<times> number) list"
type_synonym monthly_time = "string \<rightharpoonup> (string \<rightharpoonup> time_data)"

definition isContract :: "employee \<Rightarrow> bool" where
  "isContract emp = truthy (contractRate emp)"

text \<open>\<^verbatim>\<open>demoMonthlyTime[employeeId]?.[month] || {}\<close>\<close>

definition monthTimeData :: "monthly_time \<Rightarrow> string \<Rightarrow> string \<Rightarrow> time_data" where
  "monthTimeData demoMonthlyTime employeeId month =
     (case demoMonthlyTime employeeId of
        None \<Rightarrow> []
      | Some months \<Rightarrow> (case months month of None \<Rightarrow> [] | Some timeData \<Rightarrow> timeData))"

definition getEmployeeAccrued ::
  "employee list \<Rightarrow> monthly_time \<Rightarrow> string \<Rightarrow> string \<Rightarrow> number" where
  "getEmployeeAccrued mockEmployees demoMonthlyTime employeeId month =
     (case find (\<lambda>e. emp_id e = employeeId) mockEmployees of
        None \<Rightarrow> 0
      | Some emp \<Rightarrow>
          if ''accountant'' \<in> set (roles emp) then 0
          else if isContract emp then orZero (contractRate emp)
          else
            let timeData = monthTimeData demoMonthlyTime employeeId month;
                totalDays = sumValues timeData
            in totalDays * dailyRate emp)"

text \<open>The fixture of the repository: \<^verbatim>\<open>mockEmployees\<close> (names transliterated) and
  \<^verbatim>\<open>demoMonthlyTime\<close>.\<close>

definition mockEmployees :: "employee list" where
  "mockEmployees =
    [\<lparr>emp_id = ''user-1'', fullName = ''Ivanov Ivan Ivanovich'', roles = [''admin''],
       dailyRate = 5000, contractRate = None\<rparr>,
     \<lparr>emp_id = ''user-2'', fullName = ''Petrov Petr Petrovich'', roles = [''gip''],
       dailyRate = 4500, contractRate = None\<rparr>,
     \<lparr>emp_id = ''user-3'', fullName = ''Sidorova Anna Sergeevna'', roles = [''executor''],
       dailyRate = 3500, contractRate = None\<rparr>,
     \<lparr>emp_id = ''user-4'', fullName = ''Kozlov Viktor Mikhailovich'', roles = [''executor''],
       dailyRate = 3500, contractRate = None\<rparr>,
     \<lparr>emp_id = ''user-5'', fullName = ''Morozova Elena Andreevna'', roles = [''accountant''],
       dailyRate = 3000, contractRate = None\<rparr>,
     \<lparr>emp_id = ''user-6'', fullName = ''Volkov Dmitry Konstantinovich'', roles = [''executor''],
       dailyRate = 0, contractRate = Some 150000\<rparr>,
     \<lparr>emp_id = ''user-7'', fullName = ''Lebedeva Olga Nikolaevna'', roles = [''executor''],
       dailyRate = 3200, contractRate = None\<rparr>,
     \<lparr>emp_id = ''user-8'', fullName = ''Novikov Sergey Valerievich'', roles = [''gip''],
       dailyRate = 4000, contractRate = None\<rparr>]"

definition demoMonthlyTime :: monthly_time where
  "demoMonthlyTime =
    [''user-1'' \<mapsto>
       [''2026-01'' \<mapsto> [(''proj-1'', 12), (''proj-2'', 4), (''proj-3'', 2)],
        ''2026-02'' \<mapsto> [(''proj-1'', 14), (''proj-2'', 5), (''proj-3'', 3)]],
     ''user-2'' \<mapsto>
       [''2026-01'' \<mapsto> [(''proj-1'', 8), (''proj-3'', 6)],
        ''2026-02'' \<mapsto> [(''proj-1'', 10), (''proj-3'', 8)]],
     ''user-3'' \<mapsto>
       [''2026-01'' \<mapsto> [(''proj-1'', 10), (''proj-2'', 6)],
        ''2026-02'' \<mapsto> [(''proj-1'', 12), (''proj-2'', 8)]],
     ''user-4'' \<mapsto>
       [''2026-01'' \<mapsto> [(''proj-2'', 7), (''proj-4'', 5)],
        ''2026-02'' \<mapsto> [(''proj-2'', 9), (''proj-4'', 6)]],
     ''user-6'' \<mapsto>
       [''2026-01'' \<mapsto> [(''proj-1'', 0)],
        ''2026-02'' \<mapsto> [(''proj-1'', 0)]],
     ''user-7'' \<mapsto>
       [''2026-01'' \<mapsto> [(''proj-1'', 5), (''proj-2'', 6), (''proj-4'', 4)],
        ''2026-02'' \<mapsto> [(''proj-1'', 6), (''proj-2'', 7), (''proj-4'', 5)]],
     ''user-8'' \<mapsto>
       [''2026-01'' \<mapsto> [(''proj-3'', 8), (''proj-4'', 7)],
        ''2026-02'' \<mapsto> [(''proj-3'', 10), (''proj-4'', 8)]]]"

section \<open>The proportional allocator (SalaryDistributionTab.tsx)\<close>

text \<open>
  The body of \<^verbatim>\<open>mockEmployees.filter(...).map((emp) => ...)\<close> for one employee:
  \<open>timeData\<close> is \<^verbatim>\<open>demoTimeDistribution[emp.id] || {}\<close> and \<open>empPayments\<close> is
  \<^verbatim>\<open>salaryPayments[emp.id] || []\<close>. The display fields (project names, date
  labels, the advance/salary tag) are left out. The list of all employees, with the
  filter on the accountant role before the \<^verbatim>\<open>map\<close> and the filter
  \<^verbatim>\<open>totalAccrued > 0\<close> after it, follows the ledger, from which the payments are
  read.
\<close>

record project_row =
  projectId :: string
  days :: number
  proportion :: number
  accrued :: number
  paid :: number

record emp_payment =
  pay_amount :: number
  weekIndex :: nat

record payment_row =
  row_amount :: number
  row_weekIndex :: nat
  projectBreakdown :: "(string \<times> number) list"

text \<open>\<^verbatim>\<open>Object.values(timeData).reduce((s, d) => s + d, 0)\<close>, each addition
  rounded.\<close>

definition totalDaysOf :: "time_data \<Rightarrow> number" where
  "totalDaysOf timeData = foldl (\<lambda>s d. fl (s + d)) 0 (map snd timeData)"

definition totalAccruedOf :: "employee \<Rightarrow> time_data \<Rightarrow> number" where
  "totalAccruedOf emp timeData =
     (if isContract emp then orZero (contractRate emp)
      else fl (totalDaysOf timeData * dailyRate emp))"

definition buildProjects :: "employee \<Rightarrow> time_data \<Rightarrow> project_row list" where
  "buildProjects emp timeData =
     (let totalDays = totalDaysOf timeData in
      map (\<lambda>(projId, d).
             \<lparr>projectId = projId,
              days = d,
              proportion = (if isContract emp then 1 else (if totalDays > 0 then fl (d / totalDays) else 0)),
              accrued = (if isContract emp then orZero (contractRate emp) else fl (d * dailyRate emp)),
              paid = 0\<rparr>)
          (filter (\<lambda>(projId, d). d > 0 \<or> isContract emp) timeData))"

definition breakdown :: "project_row list \<Rightarrow> number \<Rightarrow> (string \<times> number) list" where
  "breakdown projects amt =
     map (\<lambda>proj. (projectId proj, Math_round (fl (amt * proportion proj)))) projects"

definition buildPayments :: "project_row list \<Rightarrow> emp_payment list \<Rightarrow> payment_row list" where
  "buildPayments projects empPayments =
     map (\<lambda>p. \<lparr>row_amount = pay_amount p,
                row_weekIndex = weekIndex p,
                projectBreakdown = breakdown projects (pay_amount p)\<rparr>) empPayments"

text \<open>\<^verbatim>\<open>const proj = projects.find(...); if (proj) proj.paid += pb.amount\<close>:
  the first row with that project id is updated.\<close>

fun addPaid :: "project_row list \<Rightarrow> string \<times> number \<Rightarrow> project_row list" where
  "addPaid [] pb = []"
| "addPaid (proj # rest) pb =
     (if projectId proj = fst pb then proj\<lparr>paid := fl (paid proj + snd pb)\<rparr> # rest
      else proj # addPaid rest pb)"

definition sumPaid :: "project_row list \<Rightarrow> payment_row list \<Rightarrow> project_row list" where
  "sumPaid projects payments =
     foldl (\<lambda>projs payment. foldl addPaid projs (projectBreakdown payment)) projects payments"

text \<open>The value that the \<^verbatim>\<open>map\<close> returns for one employee.\<close>

record employee_distribution =
  dist_employee :: employee
  dist_totalDays :: number
  dist_totalAccrued :: number
  dist_totalPaid :: number
  dist_projects :: "project_row list"
  dist_payments :: "payment_row list"

definition distribution :: "employee \<Rightarrow> time_data \<Rightarrow> emp_payment list \<Rightarrow> employee_distribution" where
  "distribution emp timeData empPayments =
     (let projects = buildProjects emp timeData;
          payments = buildPayments projects empPayments
      in \<lparr>dist_employee = emp,
          dist_totalDays = totalDaysOf timeData,
          dist_totalAccrued = totalAccruedOf emp timeData,
          dist_totalPaid = foldl (\<lambda>s p. fl (s + pay_amount p)) 0 empPayments,
          dist_projects = sumPaid projects payments,
          dist_payments = payments\<rparr>)"

text \<open>The shares of one payment, as the numbers of its \<^verbatim>\<open>projectBreakdown\<close>.\<close>

definition shares :: "employee \<Rightarrow> time_data \<Rightarrow> number \<Rightarrow> number list" where
  "shares emp timeData amt = map snd (breakdown (buildProjects emp timeData) amt)"

text \<open>\<^verbatim>\<open>demoTimeDistribution\<close>, the days of the current period by employee and
  project, and \<^verbatim>\<open>demoTimeDistribution[emp.id] || {}\<close>.\<close>

definition demoTimeDistribution :: "string \<rightharpoonup> time_data" where
  "demoTimeDistribution =
    [''user-1'' \<mapsto> [(''proj-1'', 14), (''proj-2'', 5), (''proj-3'', 3)],
     ''user-2'' \<mapsto> [(''proj-1'', 10), (''proj-3'', 8)],
     ''user-3'' \<mapsto> [(''proj-1'', 12), (''proj-2'', 8)],
     ''user-4'' \<mapsto> [(''proj-2'', 9), (''proj-4'', 6)],
     ''user-5'' \<mapsto> [],
     ''user-6'' \<mapsto> [(''proj-1'', 0)],
     ''user-7'' \<mapsto> [(''proj-1'', 6), (''proj-2'', 7), (''proj-4'', 5)],
     ''user-8'' \<mapsto> [(''proj-3'', 10), (''proj-4'', 8)]]"

definition employeeTimeData :: "employee \<Rightarrow> time_data" where
  "employeeTimeData emp =
     (case demoTimeDistribution (emp_id emp) of None \<Rightarrow> [] | Some timeData \<Rightarrow> timeData)"

section \<open>The accrual and the shares as the specification words them\<close>

text \<open>The days recorded for an employee in a month, summed over the projects.\<close>

definition recordedDays :: "monthly_time \<Rightarrow> string \<Rightarrow> string \<Rightarrow> number" where
  "recordedDays tm employeeId month = sum_list (map snd (monthTimeData tm employeeId month))"

text \<open>No time record exists for the month: the employee has no entry, or the
  entry has none for that month.\<close>

definition noTimeRecords :: "monthly_time \<Rightarrow> string \<Rightarrow> string \<Rightarrow> bool" where
  "noTimeRecords tm employeeId month =
     (case tm employeeId of None \<Rightarrow> True | Some months \<Rightarrow> months month = None)"

text \<open>The employee has a positive contract rate.\<close>

definition positiveContractRate :: "employee \<Rightarrow> bool" where
  "positiveContractRate emp = (case contractRate emp of None \<Rightarrow> False | Some r \<Rightarrow> 0 < r)"

text \<open>The accrual as the specification states it, case by case.\<close>

definition accrued_spec :: "employee list \<Rightarrow> monthly_time \<Rightarrow> string \<Rightarrow> string \<Rightarrow> number" where
  "accrued_spec emps tm employeeId month =
     (case find (\<lambda>e. emp_id e = employeeId) emps of
        None \<Rightarrow> 0
      | Some emp \<Rightarrow>
          if ''accountant'' \<in> set (roles emp) then 0
          else if positiveContractRate emp then orZero (contractRate emp)
          else recordedDays tm employeeId month * dailyRate emp)"

text \<open>The data model of a rate: an amount of money, never negative.\<close>

definition ratesNonNegative :: "employee list \<Rightarrow> bool" where
  "ratesNonNegative emps = list_all (\<lambda>e. case contractRate e of None \<Rightarrow> True | Some r \<Rightarrow> 0 \<le> r) emps"

text \<open>The exact, unrounded shares \<open>A \<times> days\<^sub>i / totalDays\<close> of the projects with recorded days.\<close>

definition exactShares :: "time_data \<Rightarrow> number \<Rightarrow> number list" where
  "exactShares timeData amt =
     map (\<lambda>(p, d). amt * (d / sum_list (map snd timeData))) (filter (\<lambda>(p, d). 0 < d) timeData)"

text \<open>A whole number that is not negative; day counts that are whole numbers with a
  total below \<open>2\<^sup>5\<^sup>3\<close>; an amount that is a whole number of at most \<open>2\<^sup>5\<^sup>0\<close>.\<close>

definition isWhole :: "number \<Rightarrow> bool" where
  "isWhole x = (0 \<le> x \<and> of_int \<lfloor>x\<rfloor> = x)"

definition wholeDays :: "time_data \<Rightarrow> bool" where
  "wholeDays timeData =
     (list_all (\<lambda>(p, d). isWhole d) timeData \<and> sum_list (map snd timeData) < 2 ^ 53)"

definition wholeAmount :: "number \<Rightarrow> bool" where
  "wholeAmount amt = (isWhole amt \<and> amt \<le> 2 ^ 50)"

text \<open>The employee has a row in the distribution table: not an accountant, and with a
  positive total accrual.\<close>

definition displayed :: "employee \<Rightarrow> time_data \<Rightarrow> bool" where
  "displayed emp timeData =
     (''accountant'' \<notin> set (roles emp) \<and> totalAccruedOf emp timeData > 0)"

section \<open>The payment and income ledgers (the Finance page with the entry dialogs)\<close>

text \<open>
  \<^verbatim>\<open>PaymentEntry\<close>; an optional field is an \<open>option\<close>. The entry of
  \<^verbatim>\<open>employeePayments\<close> is \<^verbatim>\<open>{ id, name, amount }\<close>.
\<close>

record employee_payment =
  ep_id :: string
  ep_name :: string
  ep_amount :: number

record payment_entry =
  amount :: number
  taskId :: "string option"
  taskTitle :: "string option"
  reason :: "string option"
  employeePayments :: "employee_payment list option"

text \<open>
  \<^verbatim>\<open>Record<string, Record<number, PaymentEntry[]>>\<close>. The outer object is only ever
  read at a key and spread with one key replaced: it is a map. The inner object is also
  enumerated (\<^verbatim>\<open>Object.values\<close>): it is the association list of its entries, read
  at a key with \<open>map_of\<close> and written with \<open>AList.update\<close>; the keys of an object are
  distinct.
\<close>

type_synonym cells = "(nat \<times> payment_entry list) list"
type_synonym ledger = "string \<rightharpoonup> cells"

text \<open>\<^verbatim>\<open>ledger[projectId]?.[weekIndex]\<close>\<close>

definition cellEntries :: "ledger \<Rightarrow> string \<Rightarrow> nat \<Rightarrow> payment_entry list option" where
  "cellEntries l projId wi = (case l projId of None \<Rightarrow> None | Some p \<Rightarrow> map_of p wi)"

text \<open>\<^verbatim>\<open>ledger[projectId]?.[weekIndex] || []\<close>\<close>

definition existingEntries :: "ledger \<Rightarrow> string \<Rightarrow> nat \<Rightarrow> payment_entry list" where
  "existingEntries l projId wi = (case cellEntries l projId wi of None \<Rightarrow> [] | Some es \<Rightarrow> es)"

text \<open>\<^verbatim>\<open>entries.reduce((s, e) => s + e.amount, 0)\<close>\<close>

definition sumAmounts :: "payment_entry list \<Rightarrow> number" where
  "sumAmounts entries = foldl (\<lambda>s e. s + amount e) 0 entries"

text \<open>
  The store \<^verbatim>\<open>next\<close> that \<^verbatim>\<open>saveEntry\<close> builds, in both of its branches:
  \<^verbatim>\<open>{ ...ledger, [projectId]: { ...ledger[projectId], [weekIndex]: [...existing, entry] } }\<close>
\<close>

definition appendEntry :: "ledger \<Rightarrow> string \<Rightarrow> nat \<Rightarrow> payment_entry \<Rightarrow> ledger" where
  "appendEntry l projId wi entry =
     (let existing = existingEntries l projId wi in
      l(projId \<mapsto>
          AList.update wi (existing @ [entry]) (case l projId of None \<Rightarrow> [] | Some p \<Rightarrow> p)))"

definition getCellTotal :: "ledger \<Rightarrow> string \<Rightarrow> nat \<Rightarrow> number" where
  "getCellTotal payments projId wi =
     (case cellEntries payments projId wi of
        None \<Rightarrow> 0
      | Some entries \<Rightarrow> if length entries = 0 then 0 else sumAmounts entries)"

definition getTotalPaid :: "ledger \<Rightarrow> string \<Rightarrow> number" where
  "getTotalPaid payments projId =
     (case payments projId of
        None \<Rightarrow> 0
      | Some p \<Rightarrow> foldl (\<lambda>sum entries. sum + sumAmounts entries) 0 (map snd p))"

text \<open>\<^verbatim>\<open>Object.values(p).flat().filter((v) => v.reason === "subcontract")
  .reduce((sum, v) => sum + v.amount, 0)\<close>; the second parameter is
  \<^verbatim>\<open>_subcontractorId\<close>, which the body never reads.\<close>

definition getProjectSubcontractorPaid :: "ledger \<Rightarrow> string \<Rightarrow> string \<Rightarrow> number" where
  "getProjectSubcontractorPaid globalPayments projId subcontractorId =
     (case globalPayments projId of
        None \<Rightarrow> 0
      | Some p \<Rightarrow>
          foldl (\<lambda>sum v. sum + amount v) 0
            (filter (\<lambda>v. reason v = Some ''subcontract'') (concat (map snd p))))"

subsection \<open>The entry dialog\<close>

text \<open>
  The rows of the queries the dialog reads: a task (\<^verbatim>\<open>selectedEmployeeIds\<close> and
  \<^verbatim>\<open>accountingSubtype\<close> are present on accounting tasks only) and a project
  subcontractor. An employee row is an \<open>employee\<close>.
\<close>

record task =
  task_id :: string
  title :: string
  accountingSubtype :: "string option"
  selectedEmployeeIds :: "string list option"

record subcontractor =
  sub_id :: string
  contractorName :: string
  contractAmount :: number

record task_employee =
  te_id :: string
  te_name :: string
  rate :: number

datatype dialog_mode = Payment | Income

text \<open>
  The state of the page. A text field that the code only reads through
  \<^verbatim>\<open>parseFloat\<close> holds what \<^verbatim>\<open>parseFloat\<close> reads in it, \<open>None\<close> for
  \<^verbatim>\<open>NaN\<close>: \<open>dialogAmount\<close>, and \<open>employeeAmounts\<close> at each employee id (a missing
  key is the empty text, hence \<^verbatim>\<open>NaN\<close>). \<open>payments\<close> and \<open>incomes\<close> are the
  component's state, \<open>globalPayments\<close> and \<open>globalIncomes\<close> the module's stores.
\<close>

record finance =
  allTasks :: "task list"
  allEmployees :: "employee list"
  allSubcontractors :: "subcontractor list"
  payments :: ledger
  incomes :: ledger
  globalPayments :: ledger
  globalIncomes :: ledger
  dialogOpen :: bool
  dialogMode :: dialog_mode
  editCell :: "(string \<times> nat) option"
  dialogAmount :: "number option"
  dialogTaskId :: string
  dialogNote :: string
  employeeAmounts :: "string \<rightharpoonup> number"

definition updatePayments :: "ledger \<Rightarrow> finance \<Rightarrow> finance" where
  "updatePayments next st = st\<lparr>payments := next, globalPayments := next\<rparr>"

definition updateIncomes :: "ledger \<Rightarrow> finance \<Rightarrow> finance" where
  "updateIncomes next st = st\<lparr>incomes := next, globalIncomes := next\<rparr>"

definition getSelectedTask :: "finance \<Rightarrow> task option" where
  "getSelectedTask st =
     (if dialogTaskId st = [] \<or> dialogTaskId st = ''none'' then None
      else find (\<lambda>t. task_id t = dialogTaskId st) (allTasks st))"

definition getTaskEmployeeList :: "finance \<Rightarrow> task \<Rightarrow> task_employee list" where
  "getTaskEmployeeList st t =
     (case selectedEmployeeIds t of
        None \<Rightarrow> []
      | Some ids \<Rightarrow>
          map (\<lambda>eid.
                 case (if accountingSubtype t = Some ''subcontract''
                          \<or> accountingSubtype t = Some ''subcontractors''
                       then find (\<lambda>s. sub_id s = eid) (allSubcontractors st) else None) of
                   Some sub \<Rightarrow>
                     \<lparr>te_id = eid, te_name = contractorName sub, rate = contractAmount sub\<rparr>
                 | None \<Rightarrow>
                     (case find (\<lambda>e. emp_id e = eid) (allEmployees st) of
                        Some emp \<Rightarrow>
                          \<lparr>te_id = eid, te_name = fullName emp,
                           rate = (if dailyRate emp \<noteq> 0 then dailyRate emp
                                   else orZero (contractRate emp))\<rparr>
                      | None \<Rightarrow> \<lparr>te_id = eid, te_name = eid, rate = 0\<rparr>))
              ids)"

definition dialogTaskEmployees :: "finance \<Rightarrow> task_employee list" where
  "dialogTaskEmployees st =
     (case getSelectedTask st of None \<Rightarrow> [] | Some t \<Rightarrow> getTaskEmployeeList st t)"

definition hasEmployees :: "finance \<Rightarrow> bool" where
  "hasEmployees st = (length (dialogTaskEmployees st) > 0)"

text \<open>\<^verbatim>\<open>Object.values(employeeAmounts).reduce((s, v) => s + (parseFloat(v) || 0), 0)\<close>
  needs the keys of the object; they are passed as a list.\<close>

definition computeTotalFromEmployees :: "string list \<Rightarrow> finance \<Rightarrow> number" where
  "computeTotalFromEmployees keys st =
     foldl (\<lambda>s k. s + orZero (employeeAmounts st k)) 0 keys"

text \<open>The default title of an income entry (the literal of the source is Russian).\<close>

definition defaultIncomeTitle :: string where
  "defaultIncomeTitle = ''Prikhod ot zakazchika''"

text \<open>\<^verbatim>\<open>s || undefined\<close> for an optional text.\<close>

fun orUndefined :: "string option \<Rightarrow> string option" where
  "orUndefined None = None"
| "orUndefined (Some s) = (if s = [] then None else Some s)"

definition saveEntry :: "finance \<Rightarrow> finance" where
  "saveEntry st =
     (case editCell st of
        None \<Rightarrow> st
      | Some (projId, wi) \<Rightarrow>
          (case dialogMode st of
             Income \<Rightarrow>
               let amt = orZero (dialogAmount st) in
               if amt \<le> 0 then st
               else
                 let entry =
                       \<lparr>amount = amt,
                        taskId = (if dialogTaskId st \<noteq> ''none'' then Some (dialogTaskId st) else None),
                        taskTitle =
                          (if dialogTaskId st \<noteq> ''none'' then map_option title (getSelectedTask st)
                           else Some (if dialogNote st = [] then defaultIncomeTitle else dialogNote st)),
                        reason = Some ''income'',
                        employeePayments = None\<rparr>
                 in (updateIncomes (appendEntry (incomes st) projId wi entry) st)
                      \<lparr>dialogOpen := False, editCell := None\<rparr>
           | Payment \<Rightarrow>
               if dialogTaskId st = [] \<or> dialogTaskId st = ''none'' then st
               else
                 let t = getSelectedTask st;
                     empPayments =
                       filter (\<lambda>e. ep_amount e > 0)
                         (map (\<lambda>e. \<lparr>ep_id = te_id e, ep_name = te_name e,
                                     ep_amount = orZero (employeeAmounts st (te_id e))\<rparr>)
                            (dialogTaskEmployees st));
                     totalAmount =
                       (if hasEmployees st then foldl (\<lambda>s e. s + ep_amount e) 0 empPayments
                        else orZero (dialogAmount st))
                 in
                 if totalAmount \<le> 0 then st
                 else
                   let entry =
                         \<lparr>amount = totalAmount,
                          taskId = Some (dialogTaskId st),
                          taskTitle = Some (case t of None \<Rightarrow> [] | Some t' \<Rightarrow> title t'),
                          reason = (case t of None \<Rightarrow> None | Some t' \<Rightarrow> orUndefined (accountingSubtype t')),
                          employeePayments = (if hasEmployees st then Some empPayments else None)\<rparr>
                   in (updatePayments (appendEntry (payments st) projId wi entry) st)
                        \<lparr>dialogOpen := False, editCell := None\<rparr>))"

subsection \<open>The seed of the payment ledger\<close>

text \<open>\<^verbatim>\<open>buildInitialPayments()\<close>, the initial value of \<^verbatim>\<open>globalPayments\<close>
  (titles and names transliterated).\<close>

definition buildInitialPayments :: ledger where
  "buildInitialPayments =
    [''proj-1'' \<mapsto>
       [(2, [\<lparr>amount = 250000, taskId = Some ''acc-1'',
               taskTitle = Some ''Vyplata ZP za mart - Rassvet'', reason = Some ''salary'',
               employeePayments = Some
                 [\<lparr>ep_id = ''user-1'', ep_name = ''Ivanov I.I.'', ep_amount = 75000\<rparr>,
                  \<lparr>ep_id = ''user-2'', ep_name = ''Petrov P.P.'', ep_amount = 67500\<rparr>,
                  \<lparr>ep_id = ''user-3'', ep_name = ''Sidorova A.S.'', ep_amount = 52500\<rparr>,
                  \<lparr>ep_id = ''user-4'', ep_name = ''Kozlov V.M.'', ep_amount = 55000\<rparr>]\<rparr>]),
        (4, [\<lparr>amount = 850000, taskId = Some ''acc-2'',
               taskTitle = Some ''Oplata subpodryadchiku StroyMontazh'',
               reason = Some ''subcontract'', employeePayments = None\<rparr>]),
        (5, [\<lparr>amount = 45000, taskId = Some ''acc-3'',
               taskTitle = Some ''Dop. raskhody: komandirovka na ploshchadku'',
               reason = Some ''additional'', employeePayments = None\<rparr>,
             \<lparr>amount = 180000, taskId = Some ''acc-4'',
               taskTitle = Some ''Vyplata avansa za aprel - Rassvet'', reason = Some ''salary'',
               employeePayments = Some
                 [\<lparr>ep_id = ''user-2'', ep_name = ''Petrov P.P.'', ep_amount = 67500\<rparr>,
                  \<lparr>ep_id = ''user-3'', ep_name = ''Sidorova A.S.'', ep_amount = 52500\<rparr>,
                  \<lparr>ep_id = ''user-6'', ep_name = ''Volkov D.K.'', ep_amount = 60000\<rparr>]\<rparr>]),
        (7, [\<lparr>amount = 320000, taskId = Some ''acc-5'',
               taskTitle = Some ''Oplata IP Kuznetsov - izyskaniya'',
               reason = Some ''subcontract'', employeePayments = None\<rparr>])],
     ''proj-2'' \<mapsto>
       [(1, [\<lparr>amount = 200000, taskId = Some ''acc-8'',
               taskTitle = Some ''Oformlenie KS-2/KS-3 - Parkovyy'',
               reason = Some ''subcontract'', employeePayments = None\<rparr>]),
        (3, [\<lparr>amount = 175000, taskId = None,
               taskTitle = Some ''ZP komandy - Parkovyy'', reason = Some ''salary'',
               employeePayments = Some
                 [\<lparr>ep_id = ''user-2'', ep_name = ''Petrov P.P.'', ep_amount = 67500\<rparr>,
                  \<lparr>ep_id = ''user-7'', ep_name = ''Lebedeva O.N.'', ep_amount = 48000\<rparr>,
                  \<lparr>ep_id = ''user-4'', ep_name = ''Kozlov V.M.'', ep_amount = 59500\<rparr>]\<rparr>]),
        (6, [\<lparr>amount = 95000, taskId = None,
               taskTitle = Some ''Raskhody na ekspertizu - Parkovyy'',
               reason = Some ''additional'', employeePayments = None\<rparr>])],
     ''proj-3'' \<mapsto>
       [(3, [\<lparr>amount = 600000, taskId = None,
               taskTitle = Some ''Avans GeoIzyskaniya - Vostok'',
               reason = Some ''subcontract'', employeePayments = None\<rparr>]),
        (6, [\<lparr>amount = 120000, taskId = None,
               taskTitle = Some ''ZP - Vostok'', reason = Some ''salary'',
               employeePayments = Some
                 [\<lparr>ep_id = ''user-6'', ep_name = ''Volkov D.K.'', ep_amount = 60000\<rparr>,
                  \<lparr>ep_id = ''user-8'', ep_name = ''Novikov S.V.'', ep_amount = 60000\<rparr>]\<rparr>])],
     ''proj-4'' \<mapsto>
       [(0, [\<lparr>amount = 500000, taskId = None,
               taskTitle = Some ''Finalnaya ZP - Shkola'', reason = Some ''salary'',
               employeePayments = None\<rparr>]),
        (1, [\<lparr>amount = 350000, taskId = None,
               taskTitle = Some ''Ostatok subpodryad - Shkola'',
               reason = Some ''subcontract'', employeePayments = None\<rparr>])],
     ''__no_project__'' \<mapsto>
       [(4, [\<lparr>amount = 385000, taskId = Some ''acc-7'',
               taskTitle = Some ''Vyplata ZP (obshchaya)'', reason = Some ''salary'',
               employeePayments = Some
                 [\<lparr>ep_id = ''user-1'', ep_name = ''Ivanov I.I.'', ep_amount = 75000\<rparr>,
                  \<lparr>ep_id = ''user-2'', ep_name = ''Petrov P.P.'', ep_amount = 67500\<rparr>,
                  \<lparr>ep_id = ''user-3'', ep_name = ''Sidorova A.S.'', ep_amount = 52500\<rparr>,
                  \<lparr>ep_id = ''user-4'', ep_name = ''Kozlov V.M.'', ep_amount = 55000\<rparr>,
                  \<lparr>ep_id = ''user-6'', ep_name = ''Volkov D.K.'', ep_amount = 30000\<rparr>,
                  \<lparr>ep_id = ''user-7'', ep_name = ''Lebedeva O.N.'', ep_amount = 48000\<rparr>,
                  \<lparr>ep_id = ''user-8'', ep_name = ''Novikov S.V.'', ep_amount = 57000\<rparr>]\<rparr>])]]"

text \<open>A state of the page for the examples: the accounting task \<^verbatim>\<open>acc-1\<close> of the
  mock data, selected in the payment dialog opened on the cell of week 2 of
  \<^verbatim>\<open>proj-1\<close>, with amounts typed for two of its four employees.\<close>

definition demoFinance :: finance where
  "demoFinance =
     \<lparr>allTasks =
        [\<lparr>task_id = ''task-1'', title = ''Razrabotka genplana'',
          accountingSubtype = None, selectedEmployeeIds = None\<rparr>,
         \<lparr>task_id = ''acc-1'', title = ''Vyplata ZP za mart - Rassvet'',
          accountingSubtype = Some ''salary'',
          selectedEmployeeIds = Some [''user-1'', ''user-2'', ''user-3'', ''user-4'']\<rparr>],
      allEmployees = mockEmployees,
      allSubcontractors = [],
      payments = buildInitialPayments,
      incomes = Map.empty,
      globalPayments = buildInitialPayments,
      globalIncomes = Map.empty,
      dialogOpen = True,
      dialogMode = Payment,
      editCell = Some (''proj-1'', 2),
      dialogAmount = None,
      dialogTaskId = ''acc-1'',
      dialogNote = [],
      employeeAmounts = [''user-1'' \<mapsto> 75000, ''user-3'' \<mapsto> 52500, ''user-4'' \<mapsto> 0]\<rparr>"

section \<open>The distribution table (SalaryDistributionTab.tsx)\<close>

text \<open>
  \<^verbatim>\<open>getSalaryPaymentsByEmployee()[empId] || []\<close>: the per-employee amounts of the
  salary entries of the bucket \<^verbatim>\<open>__no_project__\<close> that carry a breakdown, in the
  order of the cells, of the entries and of their breakdowns.
\<close>

definition getSalaryPaymentsByEmployee :: "ledger \<Rightarrow> string \<Rightarrow> emp_payment list" where
  "getSalaryPaymentsByEmployee l empId =
     (let npPayments = (case l ''__no_project__'' of None \<Rightarrow> [] | Some p \<Rightarrow> p) in
      concat (map (\<lambda>(wi, entries).
        concat (map (\<lambda>entry.
          case employeePayments entry of
            None \<Rightarrow> []
          | Some eps \<Rightarrow>
              if reason entry \<noteq> Some ''salary'' then []
              else map (\<lambda>ep. \<lparr>pay_amount = ep_amount ep, weekIndex = wi\<rparr>)
                     (filter (\<lambda>ep. ep_id ep = empId) eps))
          entries))
        npPayments))"

text \<open>\<^verbatim>\<open>distributions\<close>: the employees that are not accountants, mapped to their
  distribution, of which those with a positive total accrual are kept.\<close>

definition distributions ::
  "employee list \<Rightarrow> (string \<rightharpoonup> time_data) \<Rightarrow> ledger \<Rightarrow> employee_distribution list" where
  "distributions employeeList timeDistribution l =
     filter (\<lambda>d. dist_totalAccrued d > 0)
       (map (\<lambda>emp.
               distribution emp
                 (case timeDistribution (emp_id emp) of None \<Rightarrow> [] | Some timeData \<Rightarrow> timeData)
                 (getSalaryPaymentsByEmployee l (emp_id emp)))
          (filter (\<lambda>emp. ''accountant'' \<notin> set (roles emp)) employeeList))"

section \<open>The ledger as the specification words it\<close>

text \<open>An entry that carries a per-employee breakdown is consistent when the breakdown
  sums to the entry's amount and lists only positive amounts.\<close>

definition breakdownConsistent :: "payment_entry \<Rightarrow> bool" where
  "breakdownConsistent e =
     (case employeePayments e of
        None \<Rightarrow> True
      | Some eps \<Rightarrow> sum_list (map ep_amount eps) = amount e \<and> list_all (\<lambda>p. 0 < ep_amount p) eps)"

text \<open>The periods of a bucket that hold a cell, and the sum of the amounts of the
  entries with reason \<^verbatim>\<open>subcontract\<close>, cell by cell over all periods.\<close>

definition periods :: "ledger \<Rightarrow> string \<Rightarrow> nat set" where
  "periods l projId = (case l projId of None \<Rightarrow> {} | Some p \<Rightarrow> fst ` set p)"

definition subcontractEntries :: "ledger \<Rightarrow> string \<Rightarrow> nat \<Rightarrow> payment_entry list" where
  "subcontractEntries l projId wi =
     filter (\<lambda>e. reason e = Some ''subcontract'') (existingEntries l projId wi)"

definition subcontractTotal :: "ledger \<Rightarrow> string \<Rightarrow> number" where
  "subcontractTotal l projId =
     (\<Sum>wi \<in> periods l projId. sum_list (map amount (subcontractEntries l projId wi)))"

text \<open>The keys of the inner object of a bucket are distinct, as the keys of an object are.\<close>

definition distinctPeriods :: "ledger \<Rightarrow> string \<Rightarrow> bool" where
  "distinctPeriods l projId = (case l projId of None \<Rightarrow> True | Some p \<Rightarrow> distinct (map fst p))"

text \<open>The entry that \<open>saveEntry\<close> builds in the state \<open>demoFinance\<close>.\<close>

definition demoEntry :: payment_entry where
  "demoEntry =
     \<lparr>amount = 127500, taskId = Some ''acc-1'',
      taskTitle = Some ''Vyplata ZP za mart - Rassvet'', reason = Some ''salary'',
      employeePayments = Some
        [\<lparr>ep_id = ''user-1'', ep_name = ''Ivanov Ivan Ivanovich'', ep_amount = 75000\<rparr>,
         \<lparr>ep_id = ''user-3'', ep_name = ''Sidorova Anna Sergeevna'', ep_amount = 52500\<rparr>]\<rparr>"

section \<open>The payroll store and the payments tab (salaryStore.ts, SalaryPaymentsTab)\<close>

text \<open>\<^verbatim>\<open>SalaryPaymentRecord\<close> and \<^verbatim>\<open>SalaryPayroll\<close>.\<close>

record salary_payment_record =
  rec_employeeId :: string
  rec_employeeName :: string
  rec_amount :: number
  rec_paid :: bool

datatype payroll_type = Salary | Advance

record salary_payroll =
  payroll_id :: string
  payroll_date :: string
  payroll_type :: payroll_type
  monthLabel :: string
  employees :: "salary_payment_record list"
  processed :: bool

text \<open>
  The state of the tab: the module's store \<open>globalPayrolls\<close> and the component's
  \<open>localPayrolls\<close>, \<open>selectedPayrollId\<close>, \<open>confirmOpen\<close> and \<open>editAmounts\<close>
  (the texts typed into the amount fields).
\<close>

record payroll_tab =
  globalPayrolls :: "salary_payroll list"
  localPayrolls :: "salary_payroll list"
  selectedPayrollId :: string
  confirmOpen :: bool
  editAmounts :: "string \<rightharpoonup> string"

definition selectedPayroll :: "payroll_tab \<Rightarrow> salary_payroll option" where
  "selectedPayroll st = find (\<lambda>p. payroll_id p = selectedPayrollId st) (localPayrolls st)"

text \<open>\<^verbatim>\<open>selectedPayroll?.processed || false\<close>\<close>

definition isProcessed :: "payroll_tab \<Rightarrow> bool" where
  "isProcessed st = (case selectedPayroll st of None \<Rightarrow> False | Some p \<Rightarrow> processed p)"

text \<open>\<^verbatim>\<open>selectedPayroll?.employees.every((e) => e.paid) || false\<close>\<close>

definition allChecked :: "payroll_tab \<Rightarrow> bool" where
  "allChecked st =
     (case selectedPayroll st of None \<Rightarrow> False | Some p \<Rightarrow> list_all rec_paid (employees p))"

definition toggleEmployee :: "string \<Rightarrow> payroll_tab \<Rightarrow> payroll_tab" where
  "toggleEmployee empId st =
     (if isProcessed st then st
      else st\<lparr>localPayrolls :=
             map (\<lambda>p. if payroll_id p = selectedPayrollId st
                       then p\<lparr>employees :=
                              map (\<lambda>e. if rec_employeeId e = empId then e\<lparr>rec_paid := \<not> rec_paid e\<rparr> else e)
                                (employees p)\<rparr>
                       else p)
               (localPayrolls st)\<rparr>)"

definition toggleAll :: "payroll_tab \<Rightarrow> payroll_tab" where
  "toggleAll st =
     (if isProcessed st then st
      else
        let newPaid = \<not> allChecked st in
        st\<lparr>localPayrolls :=
             map (\<lambda>p. if payroll_id p = selectedPayrollId st
                       then p\<lparr>employees := map (\<lambda>e. e\<lparr>rec_paid := newPaid\<rparr>) (employees p)\<rparr>
                       else p)
               (localPayrolls st)\<rparr>)"

text \<open>\<^verbatim>\<open>updateAmount(empId, value)\<close>: \<open>txt\<close> is the text \<^verbatim>\<open>value\<close> and
  \<open>parsed\<close> what \<^verbatim>\<open>parseFloat\<close> reads in it.\<close>

definition updateAmount :: "string \<Rightarrow> string \<Rightarrow> number option \<Rightarrow> payroll_tab \<Rightarrow> payroll_tab" where
  "updateAmount empId txt parsed st =
     (if isProcessed st then st
      else
        let numVal = orZero parsed in
        st\<lparr>editAmounts := (editAmounts st)(empId \<mapsto> txt),
           localPayrolls :=
             map (\<lambda>p. if payroll_id p = selectedPayrollId st
                       then p\<lparr>employees :=
                              map (\<lambda>e. if rec_employeeId e = empId then e\<lparr>rec_amount := numVal\<rparr> else e)
                                (employees p)\<rparr>
                       else p)
               (localPayrolls st)\<rparr>)"

definition processPayroll :: "payroll_tab \<Rightarrow> payroll_tab" where
  "processPayroll st =
     (let updated =
            map (\<lambda>p. if payroll_id p = selectedPayrollId st then p\<lparr>processed := True\<rparr> else p)
              (localPayrolls st)
      in st\<lparr>localPayrolls := updated, globalPayrolls := updated, confirmOpen := False\<rparr>)"

text \<open>\<^verbatim>\<open>processPayroll\<close> ends by calling \<^verbatim>\<open>onPayrollProcessed\<close>, a callback of
  the parent component that the tab's state does not depend on.\<close>

text \<open>The operations of the tab on its payrolls, and a run of them. Selecting another
  payroll (\<^verbatim>\<open>setSelectedPayrollId\<close>) and opening the confirmation are the others.\<close>

datatype payroll_action =
    ToggleEmployee string
  | ToggleAll
  | UpdateAmount string string "number option"
  | ProcessPayroll
  | SelectPayroll string
  | OpenConfirm bool

fun payrollStep :: "payroll_tab \<Rightarrow> payroll_action \<Rightarrow> payroll_tab" where
  "payrollStep st (ToggleEmployee empId) = toggleEmployee empId st"
| "payrollStep st ToggleAll = toggleAll st"
| "payrollStep st (UpdateAmount empId txt parsed) = updateAmount empId txt parsed st"
| "payrollStep st ProcessPayroll = processPayroll st"
| "payrollStep st (SelectPayroll pid) = st\<lparr>selectedPayrollId := pid\<rparr>"
| "payrollStep st (OpenConfirm b) = st\<lparr>confirmOpen := b\<rparr>"

definition payrollRun :: "payroll_tab \<Rightarrow> payroll_action list \<Rightarrow> payroll_tab" where
  "payrollRun st acts = foldl payrollStep st acts"

text \<open>A payroll list \<open>ps'\<close> keeps the processed runs of \<open>ps\<close>: the same runs in the same
  order, and none that was processed is a draft again.\<close>

definition keepsProcessed :: "salary_payroll list \<Rightarrow> salary_payroll list \<Rightarrow> bool" where
  "keepsProcessed ps ps' =
     list_all2 (\<lambda>p p'. payroll_id p' = payroll_id p \<and> (processed p \<longrightarrow> processed p')) ps ps'"

text \<open>An example state: the unprocessed February advance of the seed, for two employees,
  next to the processed January advance.\<close>

definition demoPayrolls :: "salary_payroll list" where
  "demoPayrolls =
     [\<lparr>payroll_id = ''payroll-2026-01-20'', payroll_date = ''2026-01-20'', payroll_type = Advance,
        monthLabel = ''Yanvar 2026'',
        employees = [\<lparr>rec_employeeId = ''user-1'', rec_employeeName = ''Ivanov Ivan Ivanovich'',
                      rec_amount = 45000, rec_paid = True\<rparr>],
        processed = True\<rparr>,
      \<lparr>payroll_id = ''payroll-2026-02-20'', payroll_date = ''2026-02-20'', payroll_type = Advance,
        monthLabel = ''Fevral 2026'',
        employees = [\<lparr>rec_employeeId = ''user-1'', rec_employeeName = ''Ivanov Ivan Ivanovich'',
                      rec_amount = 55000, rec_paid = False\<rparr>,
                     \<lparr>rec_employeeId = ''user-2'', rec_employeeName = ''Petrov Petr Petrovich'',
                      rec_amount = 40500, rec_paid = False\<rparr>],
        processed = False\<rparr>]"

definition demoTab :: "string \<Rightarrow> payroll_tab" where
  "demoTab sel =
     \<lparr>globalPayrolls = demoPayrolls, localPayrolls = demoPayrolls, selectedPayrollId = sel,
      confirmOpen = False, editAmounts = Map.empty\<rparr>"

section \<open>The colour of the remaining budget (the Finance table)\<close>

text \<open>The three classes of the cell, by the names the specification gives the tiers.\<close>

definition healthy :: string where
  "healthy = ''text-green-600 dark:text-green-400''"

definition warning :: string where
  "warning = ''text-yellow-600 dark:text-yellow-400''"

definition critical :: string where
  "critical = ''text-red-600 dark:text-red-400''"

text \<open>The class of a project row, where \<^verbatim>\<open>remaining = project.budget - paid\<close>.\<close>

definition remainingClass :: "number \<Rightarrow> number \<Rightarrow> string" where
  "remainingClass budget remaining =
     (if budget > 0
      then (if remaining / budget > 0.5 then healthy
            else if remaining / budget \<ge> 0.1 then warning
            else critical)
      else [])"

text \<open>The class of the totals row, through \<^verbatim>\<open>remainingPct\<close>.\<close>

definition totalRemainingClass :: "number \<Rightarrow> number \<Rightarrow> string" where
  "totalRemainingClass totalBudget totalRemaining =
     (let remainingPct = (if totalBudget > 0 then totalRemaining / totalBudget else 1) in
      if remainingPct > 0.5 then healthy
      else if remainingPct \<ge> 0.1 then warning
      else critical)"

section \<open>The period generator (the two Finance pages)\<close>

text \<open>
  A \<^verbatim>\<open>Date\<close> of the period generator is a local midnight: \<^verbatim>\<open>parseISO\<close> of a
  calendar date \<^verbatim>\<open>YYYY-MM-DD\<close>, \<^verbatim>\<open>new Date(year, month, day)\<close>, and what
  \<^verbatim>\<open>startOfWeek\<close> and \<^verbatim>\<open>addWeeks\<close> make of one. It is modelled by its day
  number, the count of calendar days since 1 January 1970 (a Thursday); two dates compare
  as their day numbers do. The functions of the date library and of \<^verbatim>\<open>Date\<close> are
  modelled from their documentation:
  \<^item> \<^verbatim>\<open>getDay\<close> is the day of the week, \<open>0\<close> for Sunday;
  \<^item> \<^verbatim>\<open>startOfWeek(d, { weekStartsOn: 1 })\<close> goes back
    \<^verbatim>\<open>(day < 1 ? 7 : 0) + day - 1\<close> days;
  \<^item> \<^verbatim>\<open>addWeeks(d, n)\<close> adds \<open>7 n\<close> days;
  \<^item> \<^verbatim>\<open>new Date(year, monthIndex, day)\<close> is the day number of that civil date.
\<close>

type_synonym date = int

definition getDay :: "date \<Rightarrow> int" where
  "getDay d = (d + 4) mod 7"

definition startOfWeek :: "date \<Rightarrow> date" where
  "startOfWeek d = (let dy = getDay d; diff = (if dy < 1 then 7 else 0) + dy - 1 in d - diff)"

definition addWeeks :: "date \<Rightarrow> int \<Rightarrow> date" where
  "addWeeks d amt = d + amt * 7"

definition daysFromCivil :: "int \<Rightarrow> int \<Rightarrow> int \<Rightarrow> date" where
  "daysFromCivil y m d =
     (let y' = (if m \<le> 2 then y - 1 else y);
          era = y' div 400;
          yoe = y' - era * 400;
          mp = (m + 9) mod 12;
          doy = (153 * mp + 2) div 5 + d - 1;
          doe = yoe * 365 + yoe div 4 - yoe div 100 + doy
      in era * 146097 + doe - 719468)"

definition newDate :: "int \<Rightarrow> int \<Rightarrow> int \<Rightarrow> date" where
  "newDate year monthIndex dayOfMonth = daysFromCivil year (monthIndex + 1) dayOfMonth"

text \<open>\<^verbatim>\<open>Math.min(...xs)\<close> and \<^verbatim>\<open>Math.max(...xs)\<close> of a list with first element
  \<open>x\<close>.\<close>

definition Math_min :: "int \<Rightarrow> int list \<Rightarrow> int" where
  "Math_min x xs = foldl min x xs"

definition Math_max :: "int \<Rightarrow> int list \<Rightarrow> int" where
  "Math_max x xs = foldl max x xs"

text \<open>
  The loop of both generators, with the array \<^verbatim>\<open>weeks\<close> as accumulator:
  \<^verbatim>\<open>while (current <= limit) { weeks.push(current); current = addWeeks(current, 1); }\<close>
\<close>

function weeksLoop :: "date \<Rightarrow> date \<Rightarrow> date list \<Rightarrow> date list" where
  "weeksLoop current limit weeks =
     (if current \<le> limit then weeksLoop (addWeeks current 1) limit (weeks @ [current])
      else weeks)"
  by pat_completeness auto
termination
  by (relation "measure (\<lambda>(current, limit, weeks). nat (limit - current + 1))")
    (auto simp: addWeeks_def)

text \<open>The \<^verbatim>\<open>Project\<close> of the Finance page; its dates are parsed.\<close>

record project =
  proj_id :: string
  proj_name :: string
  proj_budget :: number
  endDate :: date
  startDate :: date

text \<open>\<^verbatim>\<open>generateWeeks(projects)\<close> of \<^verbatim>\<open>src/pages/Finance.tsx\<close>: from the earliest
  start to the latest end plus a buffer.\<close>

fun generateWeeks :: "project list \<Rightarrow> date list" where
  "generateWeeks [] = []"
| "generateWeeks (p # ps) =
     (let minDate = startOfWeek (Math_min (startDate p) (map startDate ps));
          maxDate = Math_max (endDate p) (map endDate ps)
      in weeksLoop minDate (addWeeks maxDate 2) [])"

text \<open>\<^verbatim>\<open>generateWeeks(_projects?)\<close> of the page with the dialogs: the current half-year.
  \<open>year\<close> and \<open>month\<close> are \<^verbatim>\<open>now.getFullYear()\<close> and \<^verbatim>\<open>now.getMonth()\<close>; the
  parameter is not read.\<close>

definition generateWeeksHalfYear :: "int \<Rightarrow> int \<Rightarrow> date list" where
  "generateWeeksHalfYear year month =
     (let halfStart = (if month < 6 then newDate year 0 1 else newDate year 6 1);
          halfEnd = (if month < 6 then newDate year 5 30 else newDate year 11 31);
          minDate = startOfWeek halfStart
      in weeksLoop minDate halfEnd [])"

section \<open>The periods as the specification words them\<close>

text \<open>The week-starts \<open>first, first + 7, \<dots>\<close> that are not after \<open>limit\<close>, and their
  number.\<close>

definition weekCount :: "date \<Rightarrow> date \<Rightarrow> nat" where
  "weekCount first limit = (if first \<le> limit then nat ((limit - first) div 7 + 1) else 0)"

definition weeklySequence :: "date \<Rightarrow> date \<Rightarrow> date list" where
  "weeklySequence first limit = map (\<lambda>k. first + 7 * int k) [0..<weekCount first limit]"

text \<open>The Monday of the week that contains a date: the Monday among the date and the six
  days before it.\<close>

definition isMondayOfWeekOf :: "date \<Rightarrow> date \<Rightarrow> bool" where
  "isMondayOfWeekOf m d = (getDay m = 1 \<and> m \<le> d \<and> d < m + 7)"

text \<open>Consecutive elements differ by exactly seven days.\<close>

definition weeklySpaced :: "date list \<Rightarrow> bool" where
  "weeklySpaced ws = (\<forall>k. Suc k < length ws \<longrightarrow> ws ! Suc k = ws ! k + 7)"

text \<open>Two projects of the mock data, \<^verbatim>\<open>proj-1\<close> (2024-03-01 to 2024-12-30) and
  \<^verbatim>\<open>proj-2\<close> (2024-01-15 to 2024-11-30), and a short one for the examples
  (2024-03-01 to 2024-03-10).\<close>

definition demoProjects :: "project list" where
  "demoProjects =
     [\<lparr>proj_id = ''proj-1'', proj_name = ''Rassvet'', proj_budget = 12500000,
       endDate = daysFromCivil 2024 12 30, startDate = daysFromCivil 2024 3 1\<rparr>,
      \<lparr>proj_id = ''proj-2'', proj_name = ''Parkovyy'', proj_budget = 8200000,
       endDate = daysFromCivil 2024 11 30, startDate = daysFromCivil 2024 1 15\<rparr>]"

definition shortProject :: project where
  "shortProject =
     \<lparr>proj_id = ''proj-x'', proj_name = ''Short'', proj_budget = 1000,
      endDate = daysFromCivil 2024 3 10, startDate = daysFromCivil 2024 3 1\<rparr>"

section \<open>The mock API (lib/api.ts)\<close>

text \<open>
  A request is the path and the \<^verbatim>\<open>options\<close> of \<^verbatim>\<open>apiFetch\<close>: the method
  (optional) and the body. \<^verbatim>\<open>JSON.parse\<close> is a builtin; the body is given by what
  \<^verbatim>\<open>options.body ? JSON.parse(options.body) : null\<close> makes of it: absent (or the
  empty text), a text that parses, or a text on which \<^verbatim>\<open>JSON.parse\<close> throws a
  \<^verbatim>\<open>SyntaxError\<close>.
\<close>

datatype request_body = Absent | JsonText | InvalidJson

record request =
  path :: string
  meth :: "string option"
  body :: request_body

text \<open>
  What a call resolves to. The tables of the mock API, and what the handlers read from
  and write to them, are not modelled: \<open>Data r\<close> stands for the value that the handler
  of the route \<open>r\<close> computes from them. The literal results of the source are
  \<^verbatim>\<open>[]\<close>, \<^verbatim>\<open>{}\<close> and the request's own body.
\<close>

datatype reply = EmptyArray | EmptyObject | EchoBody | Data string

datatype api_error = SyntaxError

text \<open>\<^verbatim>\<open>String.prototype.toUpperCase\<close> on the letters \<open>a\<close> to \<open>z\<close>.\<close>

definition toUpperChar :: "char \<Rightarrow> char" where
  "toUpperChar ch =
     (let n = (of_char ch :: nat) in if 97 \<le> n \<and> n \<le> 122 then char_of (n - 32) else ch)"

definition toUpperCase :: "string \<Rightarrow> string" where
  "toUpperCase s = map toUpperChar s"

text \<open>\<^verbatim>\<open>s.split(sep)\<close> for a separator of one character.\<close>

fun splitOn :: "char \<Rightarrow> string \<Rightarrow> string list" where
  "splitOn sep [] = [[]]"
| "splitOn sep (x # xs) =
     (if x = sep then [] # splitOn sep xs
      else (case splitOn sep xs of w # ws \<Rightarrow> (x # w) # ws | [] \<Rightarrow> [[x]]))"

text \<open>\<^verbatim>\<open>s.split("/").filter(Boolean)\<close>\<close>

definition pathSegments :: "string \<Rightarrow> string list" where
  "pathSegments s = filter (\<lambda>seg. seg \<noteq> []) (splitOn CHR ''/'' s)"

text \<open>The loop of \<^verbatim>\<open>matchRoute\<close> over the segments of the pattern and of the path
  (of equal number), \<^verbatim>\<open>params\<close> being the object it fills.\<close>

fun matchSegments ::
  "string list \<Rightarrow> string list \<Rightarrow> (string \<times> string) list \<Rightarrow> (string \<times> string) list option" where
  "matchSegments (pat # pats) (seg # segs) params =
     (if take 1 pat = '':'' then matchSegments pats segs (AList.update (drop 1 pat) seg params)
      else if pat \<noteq> seg then None
      else matchSegments pats segs params)"
| "matchSegments pats segs params = Some params"

definition matchRoute :: "string \<Rightarrow> string \<Rightarrow> (string \<times> string) list option" where
  "matchRoute p pattern =
     (let pathParts = pathSegments p; patternParts = pathSegments pattern in
      if length pathParts \<noteq> length patternParts then None
      else matchSegments patternParts pathParts [])"

text \<open>
  The chain of \<^verbatim>\<open>if (...) return ...\<close> of \<^verbatim>\<open>mockApiFetch\<close>, one function for
  each of its commented sections, in the order of the source. \<open>None\<close>: no \<^verbatim>\<open>if\<close>
  of the section returned.
\<close>

definition departmentRoutes :: "string \<Rightarrow> string \<Rightarrow> reply option" where
  "departmentRoutes method rawPath =
     (if rawPath = ''/departments'' \<and> method = ''GET'' then Some (Data ''GET /departments'')
      else if rawPath = ''/departments'' \<and> method = ''POST'' then Some (Data ''POST /departments'')
      else
        let m = matchRoute rawPath ''/departments/:id'' in
        if m \<noteq> None \<and> method = ''PATCH'' then Some (Data ''PATCH /departments/:id'')
        else if m \<noteq> None \<and> method = ''DELETE'' then Some EmptyObject
        else None)"

definition userRoutes :: "string \<Rightarrow> string \<Rightarrow> reply option" where
  "userRoutes method rawPath =
     (if rawPath = ''/users'' \<and> method = ''GET'' then Some (Data ''GET /users'')
      else if rawPath = ''/users'' \<and> method = ''POST'' then Some (Data ''POST /users'')
      else
        let m = matchRoute rawPath ''/users/:id'' in
        if m \<noteq> None \<and> method = ''PATCH'' then Some (Data ''PATCH /users/:id'')
        else if m \<noteq> None \<and> method = ''DELETE'' then Some EmptyObject
        else None)"

definition contractorRoutes :: "string \<Rightarrow> string \<Rightarrow> reply option" where
  "contractorRoutes method rawPath =
     (if rawPath = ''/contractors'' \<and> method = ''GET'' then Some (Data ''GET /contractors'')
      else if rawPath = ''/contractors'' \<and> method = ''POST'' then Some (Data ''POST /contractors'')
      else
        let m = matchRoute rawPath ''/contractors/:id'' in
        if m \<noteq> None \<and> method = ''GET'' then Some (Data ''GET /contractors/:id'')
        else if m \<noteq> None \<and> method = ''PATCH'' then Some (Data ''PATCH /contractors/:id'')
        else if m \<noteq> None \<and> method = ''DELETE'' then Some EmptyObject
        else None)"

definition projectRoutes :: "string \<Rightarrow> string \<Rightarrow> reply option" where
  "projectRoutes method rawPath =
     (if rawPath = ''/projects'' \<and> method = ''GET'' then Some (Data ''GET /projects'')
      else if rawPath = ''/projects'' \<and> method = ''POST'' then Some (Data ''POST /projects'')
      else
        let m = matchRoute rawPath ''/projects/:id'' in
        if m \<noteq> None \<and> method = ''GET'' then Some (Data ''GET /projects/:id'')
        else if m \<noteq> None \<and> method = ''PATCH'' then Some (Data ''PATCH /projects/:id'')
        else if m \<noteq> None \<and> method = ''DELETE'' then Some EmptyObject
        else
          let m = matchRoute rawPath ''/projects/:id/restore'' in
          if m \<noteq> None \<and> method = ''POST'' then Some EmptyObject
          else None)"

definition projectMemberRoutes :: "string \<Rightarrow> string \<Rightarrow> reply option" where
  "projectMemberRoutes method rawPath =
     (let m = matchRoute rawPath ''/projects/:id/members'' in
      if m \<noteq> None \<and> method = ''GET'' then Some (Data ''GET /projects/:id/members'')
      else None)"

definition projectTaskRoutes :: "string \<Rightarrow> string \<Rightarrow> reply option" where
  "projectTaskRoutes method rawPath =
     (let m = matchRoute rawPath ''/projects/:id/tasks'' in
      if m \<noteq> None \<and> method = ''GET'' then Some (Data ''GET /projects/:id/tasks'')
      else None)"

definition projectSubcontractorRoutes :: "string \<Rightarrow> string \<Rightarrow> reply option" where
  "projectSubcontractorRoutes method rawPath =
     (let m = matchRoute rawPath ''/projects/:id/subcontractors'' in
      if m \<noteq> None \<and> method = ''GET'' then Some (Data ''GET /projects/:id/subcontractors'')
      else None)"

definition projectSectionRoutes :: "string \<Rightarrow> string \<Rightarrow> reply option" where
  "projectSectionRoutes method rawPath =
     (let m = matchRoute rawPath ''/projects/:id/sections'' in
      if m \<noteq> None \<and> method = ''GET'' then Some (Data ''GET /projects/:id/sections'')
      else if m \<noteq> None \<and> method = ''PUT'' then Some EchoBody
      else None)"

definition taskRoutes :: "string \<Rightarrow> string \<Rightarrow> reply option" where
  "taskRoutes method rawPath =
     (if rawPath = ''/tasks'' \<and> method = ''GET'' then Some (Data ''GET /tasks'')
      else if rawPath = ''/tasks'' \<and> method = ''POST'' then Some (Data ''POST /tasks'')
      else
        let m = matchRoute rawPath ''/tasks/:id'' in
        if m \<noteq> None \<and> method = ''GET'' then Some (Data ''GET /tasks/:id'')
        else if m \<noteq> None \<and> method = ''PATCH'' then Some (Data ''PATCH /tasks/:id'')
        else if m \<noteq> None \<and> method = ''DELETE'' then Some EmptyObject
        else None)"

definition subcontractRequestRoutes :: "string \<Rightarrow> string \<Rightarrow> reply option" where
  "subcontractRequestRoutes method rawPath =
     (if rawPath = ''/subcontracts/requests'' \<and> method = ''GET''
      then Some (Data ''GET /subcontracts/requests'')
      else None)"

definition timeTrackingRoutes :: "string \<Rightarrow> string \<Rightarrow> reply option" where
  "timeTrackingRoutes method rawPath =
     (if rawPath = ''/time-tracking/entries'' \<and> method = ''GET''
      then Some (Data ''GET /time-tracking/entries'')
      else if rawPath = ''/time-tracking/entries'' \<and> method = ''POST'' then Some EmptyObject
      else None)"

definition dayOffRoutes :: "string \<Rightarrow> string \<Rightarrow> reply option" where
  "dayOffRoutes method rawPath =
     (if rawPath = ''/time-tracking/day-offs'' \<and> method = ''GET''
      then Some (Data ''GET /time-tracking/day-offs'')
      else if rawPath = ''/time-tracking/day-offs'' \<and> method = ''POST'' then Some EmptyObject
      else None)"

definition stubRoutes :: "string \<Rightarrow> string \<Rightarrow> reply option" where
  "stubRoutes method rawPath =
     (let m = matchRoute rawPath ''/projects/:id/files'' in
      if m \<noteq> None then Some EmptyArray
      else
        let m = matchRoute rawPath ''/projects/:id/messages'' in
        if m \<noteq> None \<and> method = ''GET'' then Some EmptyArray
        else if m \<noteq> None \<and> method = ''POST'' then Some EchoBody
        else
          let m = matchRoute rawPath ''/contractors/:id/projects'' in
          if m \<noteq> None then Some EmptyArray
          else if rawPath = ''/auth/refresh'' then Some EmptyObject
          else None)"

text \<open>The first section that returns.\<close>

fun firstReply :: "reply option list \<Rightarrow> reply option" where
  "firstReply [] = None"
| "firstReply (None # rest) = firstReply rest"
| "firstReply (Some r # rest) = Some r"

definition dispatch :: "string \<Rightarrow> string \<Rightarrow> reply option" where
  "dispatch method rawPath =
     firstReply
       [departmentRoutes method rawPath, userRoutes method rawPath,
        contractorRoutes method rawPath, projectRoutes method rawPath,
        projectMemberRoutes method rawPath, projectTaskRoutes method rawPath,
        projectSubcontractorRoutes method rawPath, projectSectionRoutes method rawPath,
        taskRoutes method rawPath, subcontractRequestRoutes method rawPath,
        timeTrackingRoutes method rawPath, dayOffRoutes method rawPath,
        stubRoutes method rawPath]"

text \<open>\<^verbatim>\<open>(options.method || "GET").toUpperCase()\<close> and
  \<^verbatim>\<open>path.split("?")[0]\<close>.\<close>

definition requestMethod :: "request \<Rightarrow> string" where
  "requestMethod req =
     toUpperCase (case meth req of None \<Rightarrow> ''GET'' | Some m \<Rightarrow> if m = [] then ''GET'' else m)"

definition requestRawPath :: "request \<Rightarrow> string" where
  "requestRawPath req = (case splitOn CHR ''?'' (path req) of [] \<Rightarrow> [] | rawPath # rest \<Rightarrow> rawPath)"

text \<open>
  \<^verbatim>\<open>mockApiFetch\<close>: the result of the promise (rejected with the error, or resolved
  with the reply) and the lines written by \<^verbatim>\<open>console.warn\<close>. The body is parsed
  before any route is tried.
\<close>

definition mockApiFetch :: "request \<Rightarrow> (api_error + reply) \<times> string list" where
  "mockApiFetch req =
     (let method = requestMethod req; rawPath = requestRawPath req in
      if body req = InvalidJson then (Inl SyntaxError, [])
      else
        (case dispatch method rawPath of
           Some r \<Rightarrow> (Inr r, [])
         | None \<Rightarrow> (Inr EmptyArray, [''[MockAPI] Unhandled: '' @ method @ '' '' @ path req])))"

definition apiFetch :: "request \<Rightarrow> (api_error + reply) \<times> string list" where
  "apiFetch req = mockApiFetch req"

section \<open>The routes as the specification words them\<close>

text \<open>The routes that the mock API defines: a method (\<open>None\<close> when any method is
  served) and a path, either a literal or a pattern with \<open>:name\<close> segments.\<close>

datatype route_path = Literal string | Pattern string

definition definedRoutes :: "(string option \<times> route_path) list" where
  "definedRoutes =
     [(Some ''GET'', Literal ''/departments''), (Some ''POST'', Literal ''/departments''),
      (Some ''PATCH'', Pattern ''/departments/:id''), (Some ''DELETE'', Pattern ''/departments/:id''),
      (Some ''GET'', Literal ''/users''), (Some ''POST'', Literal ''/users''),
      (Some ''PATCH'', Pattern ''/users/:id''), (Some ''DELETE'', Pattern ''/users/:id''),
      (Some ''GET'', Literal ''/contractors''), (Some ''POST'', Literal ''/contractors''),
      (Some ''GET'', Pattern ''/contractors/:id''), (Some ''PATCH'', Pattern ''/contractors/:id''),
      (Some ''DELETE'', Pattern ''/contractors/:id''),
      (Some ''GET'', Literal ''/projects''), (Some ''POST'', Literal ''/projects''),
      (Some ''GET'', Pattern ''/projects/:id''), (Some ''PATCH'', Pattern ''/projects/:id''),
      (Some ''DELETE'', Pattern ''/projects/:id''),
      (Some ''POST'', Pattern ''/projects/:id/restore''),
      (Some ''GET'', Pattern ''/projects/:id/members''),
      (Some ''GET'', Pattern ''/projects/:id/tasks''),
      (Some ''GET'', Pattern ''/projects/:id/subcontractors''),
      (Some ''GET'', Pattern ''/projects/:id/sections''),
      (Some ''PUT'', Pattern ''/projects/:id/sections''),
      (Some ''GET'', Literal ''/tasks''), (Some ''POST'', Literal ''/tasks''),
      (Some ''GET'', Pattern ''/tasks/:id''), (Some ''PATCH'', Pattern ''/tasks/:id''),
      (Some ''DELETE'', Pattern ''/tasks/:id''),
      (Some ''GET'', Literal ''/subcontracts/requests''),
      (Some ''GET'', Literal ''/time-tracking/entries''),
      (Some ''POST'', Literal ''/time-tracking/entries''),
      (Some ''GET'', Literal ''/time-tracking/day-offs''),
      (Some ''POST'', Literal ''/time-tracking/day-offs''),
      (None, Pattern ''/projects/:id/files''),
      (Some ''GET'', Pattern ''/projects/:id/messages''),
      (Some ''POST'', Pattern ''/projects/:id/messages''),
      (None, Pattern ''/contractors/:id/projects''),
      (None, Literal ''/auth/refresh'')]"

fun routeMatches :: "string \<Rightarrow> string \<Rightarrow> string option \<times> route_path \<Rightarrow> bool" where
  "routeMatches method rawPath (m, Literal s) =
     ((m = None \<or> m = Some method) \<and> rawPath = s)"
| "routeMatches method rawPath (m, Pattern s) =
     ((m = None \<or> m = Some method) \<and> matchRoute rawPath s \<noteq> None)"

text \<open>The method and the path of a request match none of the defined routes.\<close>

definition unmatched :: "request \<Rightarrow> bool" where
  "unmatched req =
     (\<not> list_ex (routeMatches (requestMethod req) (requestRawPath req)) definedRoutes)"

text \<open>The warning of the fallback.\<close>

definition unhandledWarning :: "request \<Rightarrow> string" where
  "unhandledWarning req = ''[MockAPI] Unhandled: '' @ requestMethod req @ '' '' @ path req"

section \<open>Properties of the accrual calculator and the allocator\<close>

subsection \<open>Sums and rounding\<close>

lemma sumValues_sum_list: "sumValues obj = sum_list (map snd obj)"
proof -
  have "foldl (\<lambda>s d. s + d) a xs = a + sum_list xs" for a :: real and xs
    by (induction xs arbitrary: a) simp_all
  then show ?thesis by (simp add: sumValues_def)
qed

lemma Math_round_int: "x \<in> \<int> \<Longrightarrow> Math_round x = x"
  unfolding Math_round_def by (auto elim!: Ints_cases) 

lemma Math_round_err: "\<bar>Math_round x - x\<bar> \<le> 1 / 2"
  unfolding Math_round_def by linarith

subsection \<open>The accrual calculator\<close>

lemma find_Some_mem: "find P xs = Some x \<Longrightarrow> x \<in> set xs"
  by (auto simp: find_Some_iff)

text \<open>
  C2. For every employee id and month, \<open>getEmployeeAccrued\<close> is \<open>0\<close> for an unknown id
  and for an accountant; else the contract rate when the employee has a positive one,
  whatever the month and the recorded days; else the recorded days of the month, summed
  over the projects, times the daily rate, which is \<open>0\<close> when the month has no
  time record. The employee table holds no negative contract rate.
\<close>

theorem accrued_matches_spec:
  assumes "ratesNonNegative emps"
  shows "getEmployeeAccrued emps tm employeeId month = accrued_spec emps tm employeeId month \<and>
         (employeeId \<notin> emp_id ` set emps \<longrightarrow> getEmployeeAccrued emps tm employeeId month = 0) \<and>
         (noTimeRecords tm employeeId month \<longrightarrow>
            (\<forall>emp. find (\<lambda>e. emp_id e = employeeId) emps = Some emp \<longrightarrow>
               \<not> positiveContractRate emp \<longrightarrow> getEmployeeAccrued emps tm employeeId month = 0))"
proof -
  have unknown: "find (\<lambda>e. emp_id e = employeeId) emps = None"
    if "employeeId \<notin> emp_id ` set emps"
    using that by (auto simp: find_None_iff)
  have none: "monthTimeData tm employeeId month = []" if "noTimeRecords tm employeeId month"
    using that by (auto simp: noTimeRecords_def monthTimeData_def split: option.splits)
  have rate: "isContract emp = positiveContractRate emp"
    if "find (\<lambda>e. emp_id e = employeeId) emps = Some emp" for emp
  proof -
    from that have "emp \<in> set emps" by (rule find_Some_mem)
    with assms have "case contractRate emp of None \<Rightarrow> True | Some r \<Rightarrow> 0 \<le> r"
      by (simp add: ratesNonNegative_def list_all_iff)
    then show ?thesis
      by (auto simp: isContract_def positiveContractRate_def split: option.splits)
  qed
  have eq: "getEmployeeAccrued emps tm employeeId month = accrued_spec emps tm employeeId month"
    by (auto simp: getEmployeeAccrued_def accrued_spec_def rate recordedDays_def
        sumValues_sum_list Let_def positiveContractRate_def split: option.splits)
  have zero: "accrued_spec emps tm employeeId month = 0"
    if "noTimeRecords tm employeeId month"
      "find (\<lambda>e. emp_id e = employeeId) emps = Some emp" "\<not> positiveContractRate emp" for emp
    using that by (simp add: accrued_spec_def recordedDays_def none)
  show ?thesis
    using eq zero by (auto simp: accrued_spec_def unknown)
qed

theorem accrued_matches_spec_witness:
  "getEmployeeAccrued mockEmployees demoMonthlyTime ''user-1'' ''2026-01'' = 18 * 5000 \<and>
   getEmployeeAccrued mockEmployees demoMonthlyTime ''user-6'' ''2026-02'' = 150000 \<and>
   getEmployeeAccrued mockEmployees demoMonthlyTime ''user-5'' ''2026-01'' = 0 \<and>
   getEmployeeAccrued mockEmployees demoMonthlyTime ''user-9'' ''2026-01'' = 0 \<and>
   getEmployeeAccrued mockEmployees demoMonthlyTime ''user-2'' ''2026-03'' = 0"
proof -
  have h: "ratesNonNegative mockEmployees"
    by (simp add: ratesNonNegative_def mockEmployees_def)
  have t: "monthTimeData demoMonthlyTime ''user-1'' ''2026-01''
             = [(''proj-1'', 12), (''proj-2'', 4), (''proj-3'', 2)]"
          "monthTimeData demoMonthlyTime ''user-2'' ''2026-03'' = []"
    by (simp_all add: monthTimeData_def demoMonthlyTime_def)
  show ?thesis
    using accrued_matches_spec [OF h, of demoMonthlyTime "''user-1''" "''2026-01''"]
      accrued_matches_spec [OF h, of demoMonthlyTime "''user-6''" "''2026-02''"]
      accrued_matches_spec [OF h, of demoMonthlyTime "''user-5''" "''2026-01''"]
      accrued_matches_spec [OF h, of demoMonthlyTime "''user-9''" "''2026-01''"]
      accrued_matches_spec [OF h, of demoMonthlyTime "''user-2''" "''2026-03''"]
    by (simp add: accrued_spec_def mockEmployees_def positiveContractRate_def recordedDays_def t)
qed

section \<open>Properties of the ledgers\<close>

subsection \<open>Cells and totals\<close>

lemma sumAmounts_sum_list: "sumAmounts es = sum_list (map amount es)"
proof -
  have "foldl (\<lambda>s e. s + amount e) a es = a + sum_list (map amount es)" for a
    by (induction es arbitrary: a) simp_all
  then show ?thesis by (simp add: sumAmounts_def)
qed

lemma cellEntries_appendEntry_same:
  "cellEntries (appendEntry l b i e) b i = Some (existingEntries l b i @ [e])"
  by (simp add: cellEntries_def appendEntry_def update_conv')

lemma cellEntries_appendEntry_other:
  "(b', i') \<noteq> (b, i) \<Longrightarrow> cellEntries (appendEntry l b i e) b' i' = cellEntries l b' i'"
  by (auto simp: cellEntries_def appendEntry_def update_conv' split: option.splits)

lemma getCellTotal_sum: "getCellTotal l b i = sum_list (map amount (existingEntries l b i))"
  by (simp add: getCellTotal_def existingEntries_def sumAmounts_sum_list split: option.splits)

lemma getCellTotal_appendEntry:
  "getCellTotal (appendEntry l b i e) b i = getCellTotal l b i + amount e"
  by (simp add: getCellTotal_sum existingEntries_def cellEntries_appendEntry_same)

lemma foldl_ep_amount: "foldl (\<lambda>s e. s + ep_amount e) a eps = a + sum_list (map ep_amount eps)"
  by (induction eps arbitrary: a) simp_all

lemma saveEntry_cases:
  "saveEntry st = st \<or>
   (\<exists>b i e. editCell st = Some (b, i) \<and> dialogMode st = Payment \<and>
      saveEntry st = (updatePayments (appendEntry (payments st) b i e) st)
                       \<lparr>dialogOpen := False, editCell := None\<rparr> \<and>
      0 < amount e \<and> breakdownConsistent e \<and>
      (employeePayments e \<noteq> None) = hasEmployees st) \<or>
   (\<exists>b i e. editCell st = Some (b, i) \<and> dialogMode st = Income \<and>
      saveEntry st = (updateIncomes (appendEntry (incomes st) b i e) st)
                       \<lparr>dialogOpen := False, editCell := None\<rparr> \<and>
      0 < amount e \<and> employeePayments e = None)"
proof (cases "editCell st")
  case None
  then show ?thesis by (simp add: saveEntry_def)
next
  case (Some c)
  obtain b i where c: "c = (b, i)" by (cases c)
  show ?thesis
  proof (cases "dialogMode st")
    case Income
    show ?thesis
    proof (cases "orZero (dialogAmount st) \<le> 0")
      case True
      then show ?thesis using Some c Income by (simp add: saveEntry_def)
    next
      case False
      let ?e = "\<lparr>amount = orZero (dialogAmount st),
                 taskId = (if dialogTaskId st \<noteq> ''none'' then Some (dialogTaskId st) else None),
                 taskTitle =
                   (if dialogTaskId st \<noteq> ''none'' then map_option title (getSelectedTask st)
                    else Some (if dialogNote st = [] then defaultIncomeTitle else dialogNote st)),
                 reason = Some ''income'',
                 employeePayments = None\<rparr>"
      have save: "saveEntry st = (updateIncomes (appendEntry (incomes st) b i ?e) st)
                       \<lparr>dialogOpen := False, editCell := None\<rparr>"
        using False Some c Income by (simp add: saveEntry_def Let_def)
      have pos: "0 < amount ?e" using False by simp
      have emp: "employeePayments ?e = None" by simp
      show ?thesis
        using Some c Income save pos emp by blast
    qed
  next
    case Payment
    let ?eps = "filter (\<lambda>e. ep_amount e > 0)
                  (map (\<lambda>e. \<lparr>ep_id = te_id e, ep_name = te_name e,
                              ep_amount = orZero (employeeAmounts st (te_id e))\<rparr>)
                     (dialogTaskEmployees st))"
    let ?total = "if hasEmployees st then foldl (\<lambda>s e. s + ep_amount e) 0 ?eps
                  else orZero (dialogAmount st)"
    show ?thesis
    proof (cases "dialogTaskId st = [] \<or> dialogTaskId st = ''none'' \<or> ?total \<le> 0")
      case True
      then show ?thesis using Some c Payment by (auto simp: saveEntry_def Let_def)
    next
      case False
      let ?e = "\<lparr>amount = ?total,
                 taskId = Some (dialogTaskId st),
                 taskTitle = Some (case getSelectedTask st of None \<Rightarrow> [] | Some t' \<Rightarrow> title t'),
                 reason = (case getSelectedTask st of None \<Rightarrow> None
                           | Some t' \<Rightarrow> orUndefined (accountingSubtype t')),
                 employeePayments = (if hasEmployees st then Some ?eps else None)\<rparr>"
      have save: "saveEntry st = (updatePayments (appendEntry (payments st) b i ?e) st)
                       \<lparr>dialogOpen := False, editCell := None\<rparr>"
        using False Some c Payment by (simp add: saveEntry_def Let_def)
      have pos: "0 < amount ?e" using False by simp
      have cons: "breakdownConsistent ?e"
        by (simp add: breakdownConsistent_def foldl_ep_amount list_all_iff)
      have emp: "(employeePayments ?e \<noteq> None) = hasEmployees st" by simp
      show ?thesis
        using Some c Payment save pos cons emp by blast
    qed
  qed
qed

subsection \<open>The example state\<close>

lemma demo_task:
  "getSelectedTask demoFinance =
     Some \<lparr>task_id = ''acc-1'', title = ''Vyplata ZP za mart - Rassvet'',
            accountingSubtype = Some ''salary'',
            selectedEmployeeIds = Some [''user-1'', ''user-2'', ''user-3'', ''user-4'']\<rparr>"
  by (simp add: getSelectedTask_def demoFinance_def)

lemma demo_employees:
  "dialogTaskEmployees demoFinance =
     [\<lparr>te_id = ''user-1'', te_name = ''Ivanov Ivan Ivanovich'', rate = 5000\<rparr>,
      \<lparr>te_id = ''user-2'', te_name = ''Petrov Petr Petrovich'', rate = 4500\<rparr>,
      \<lparr>te_id = ''user-3'', te_name = ''Sidorova Anna Sergeevna'', rate = 3500\<rparr>,
      \<lparr>te_id = ''user-4'', te_name = ''Kozlov Viktor Mikhailovich'', rate = 3500\<rparr>]"
  by (simp add: dialogTaskEmployees_def demo_task getTaskEmployeeList_def)
     (simp add: demoFinance_def mockEmployees_def)

lemma demo_fields:
  "editCell demoFinance = Some (''proj-1'', 2)"
  "dialogMode demoFinance = Payment"
  "dialogTaskId demoFinance = ''acc-1''"
  "payments demoFinance = buildInitialPayments"
  "employeeAmounts demoFinance = [''user-1'' \<mapsto> 75000, ''user-3'' \<mapsto> 52500, ''user-4'' \<mapsto> 0]"
  by (simp_all add: demoFinance_def)

lemma demo_saved:
  "payments (saveEntry demoFinance) = appendEntry buildInitialPayments ''proj-1'' 2 demoEntry"
  by (simp add: saveEntry_def hasEmployees_def demo_employees demo_task demo_fields Let_def
      updatePayments_def demoEntry_def)

lemma demo_existing:
  "map amount (existingEntries buildInitialPayments ''proj-1'' 2) = [250000]"
  "getCellTotal buildInitialPayments ''proj-1'' 2 = 250000"
  "getCellTotal buildInitialPayments ''proj-1'' 4 = 850000"
  by (simp_all add: getCellTotal_def existingEntries_def cellEntries_def buildInitialPayments_def sumAmounts_def)

subsection \<open>Appending to a cell\<close>

text \<open>
  C3. Appending an entry \<open>e\<close> to the cell \<open>(b, i)\<close> of a ledger puts \<open>e\<close> at the end of
  the list of that cell: the entries stored before stay at their positions, every other
  cell of the ledger reads as before, and the total of the cell grows by exactly the
  amount of \<open>e\<close>. The dialog changes a ledger in no other way than by such an append
  to the cell it was opened on.
\<close>

theorem appendEntry_append_only:
  "(payments (saveEntry st) = payments st \<or>
      (\<exists>b i e. editCell st = Some (b, i) \<and>
         payments (saveEntry st) = appendEntry (payments st) b i e)) \<and>
   (incomes (saveEntry st) = incomes st \<or>
      (\<exists>b i e. editCell st = Some (b, i) \<and>
         incomes (saveEntry st) = appendEntry (incomes st) b i e)) \<and>
   cellEntries (appendEntry l b i e) b i = Some (existingEntries l b i @ [e]) \<and>
   (\<forall>k < length (existingEntries l b i).
      existingEntries (appendEntry l b i e) b i ! k = existingEntries l b i ! k) \<and>
   (\<forall>b' i'. (b', i') \<noteq> (b, i) \<longrightarrow>
      cellEntries (appendEntry l b i e) b' i' = cellEntries l b' i') \<and>
   getCellTotal (appendEntry l b i e) b i = getCellTotal l b i + amount e"
proof -
  have p: "payments (saveEntry st) = payments st \<or>
      (\<exists>b i e. editCell st = Some (b, i) \<and>
         payments (saveEntry st) = appendEntry (payments st) b i e)"
    using saveEntry_cases [of st]
    by (elim disjE exE conjE) (auto simp: updatePayments_def updateIncomes_def)
  have i: "incomes (saveEntry st) = incomes st \<or>
      (\<exists>b i e. editCell st = Some (b, i) \<and>
         incomes (saveEntry st) = appendEntry (incomes st) b i e)"
    using saveEntry_cases [of st]
    by (elim disjE exE conjE) (auto simp: updatePayments_def updateIncomes_def)
  show ?thesis
    using p i
    by (simp add: cellEntries_appendEntry_same cellEntries_appendEntry_other
        getCellTotal_appendEntry existingEntries_def nth_append del: split_paired_All)
qed

theorem appendEntry_append_only_witness:
  "getCellTotal (payments (saveEntry demoFinance)) ''proj-1'' 2 = 250000 + 127500 \<and>
   map amount (existingEntries (payments (saveEntry demoFinance)) ''proj-1'' 2) = [250000, 127500] \<and>
   getCellTotal (payments (saveEntry demoFinance)) ''proj-1'' 4 = 850000"
proof -
  note t = appendEntry_append_only [of demoFinance buildInitialPayments "''proj-1''" 2 demoEntry]
  from t have total: "getCellTotal (appendEntry buildInitialPayments ''proj-1'' 2 demoEntry) ''proj-1'' 2
      = getCellTotal buildInitialPayments ''proj-1'' 2 + amount demoEntry"
    by blast
  from t have cell: "cellEntries (appendEntry buildInitialPayments ''proj-1'' 2 demoEntry) ''proj-1'' 2
      = Some (existingEntries buildInitialPayments ''proj-1'' 2 @ [demoEntry])"
    by blast
  from t have "\<forall>b' i'. (b', i') \<noteq> (''proj-1'', 2) \<longrightarrow>
      cellEntries (appendEntry buildInitialPayments ''proj-1'' 2 demoEntry) b' i'
        = cellEntries buildInitialPayments b' i'"
    by blast
  then have other: "cellEntries (appendEntry buildInitialPayments ''proj-1'' 2 demoEntry) ''proj-1'' 4
        = cellEntries buildInitialPayments ''proj-1'' 4"
    by simp
  show ?thesis
    using total cell other demo_existing
    by (simp add: demo_saved existingEntries_def getCellTotal_def demoEntry_def)
qed

subsection \<open>The entries the dialog appends\<close>

text \<open>
  C10. Saving from the dialog either leaves both ledgers as they are, or appends one
  entry to the ledger of the dialog's mode. The appended entry has a positive amount;
  in payment mode it carries a per-employee breakdown exactly when the selected task
  resolves to a non-empty employee list, and the breakdown then sums to the amount of the
  entry and lists positive amounts only. An income entry carries no breakdown.
\<close>

theorem saveEntry_entry_invariant:
  "(payments (saveEntry st) = payments st \<and> incomes (saveEntry st) = incomes st) \<or>
   (\<exists>b i e. 0 < amount e \<and> breakdownConsistent e \<and>
      ((dialogMode st = Payment \<and>
        payments (saveEntry st) = appendEntry (payments st) b i e \<and>
        globalPayments (saveEntry st) = payments (saveEntry st) \<and>
        incomes (saveEntry st) = incomes st \<and>
        (employeePayments e \<noteq> None) = hasEmployees st) \<or>
       (dialogMode st = Income \<and>
        incomes (saveEntry st) = appendEntry (incomes st) b i e \<and>
        globalIncomes (saveEntry st) = incomes (saveEntry st) \<and>
        payments (saveEntry st) = payments st \<and>
        employeePayments e = None)))"
  using saveEntry_cases [of st]
proof (elim disjE exE conjE)
  assume "saveEntry st = st"
  then show ?thesis by simp
next
  fix b i e
  assume "saveEntry st = (updatePayments (appendEntry (payments st) b i e) st)
                       \<lparr>dialogOpen := False, editCell := None\<rparr>"
    and "dialogMode st = Payment" "0 < amount e" "breakdownConsistent e"
    and "(employeePayments e \<noteq> None) = hasEmployees st"
  then show ?thesis
    by (intro disjI2 exI [of _ b] exI [of _ i] exI [of _ e]) (simp add: updatePayments_def)
next
  fix b i e
  assume "saveEntry st = (updateIncomes (appendEntry (incomes st) b i e) st)
                       \<lparr>dialogOpen := False, editCell := None\<rparr>"
    and "dialogMode st = Income" "0 < amount e" "employeePayments e = None"
  then show ?thesis
    by (intro disjI2 exI [of _ b] exI [of _ i] exI [of _ e])
      (simp add: updateIncomes_def breakdownConsistent_def)
qed

theorem saveEntry_entry_invariant_witness:
  "payments (saveEntry demoFinance) \<noteq> payments demoFinance \<and>
   amount demoEntry = 75000 + 52500 \<and> breakdownConsistent demoEntry \<and>
   existingEntries (payments (saveEntry demoFinance)) ''proj-1'' 2
     = existingEntries (payments demoFinance) ''proj-1'' 2 @ [demoEntry] \<and>
   saveEntry (demoFinance\<lparr>employeeAmounts := Map.empty\<rparr>) = demoFinance\<lparr>employeeAmounts := Map.empty\<rparr>"
proof -
  have c: "existingEntries (payments (saveEntry demoFinance)) ''proj-1'' 2
     = existingEntries (payments demoFinance) ''proj-1'' 2 @ [demoEntry]"
    by (simp add: demo_saved demo_fields existingEntries_def cellEntries_appendEntry_same)
  then have n: "payments (saveEntry demoFinance) \<noteq> payments demoFinance"
    by auto
  have e: "breakdownConsistent demoEntry" "amount demoEntry = 75000 + 52500"
    by (simp_all add: breakdownConsistent_def demoEntry_def)
  have d: "dialogTaskEmployees (demoFinance\<lparr>employeeAmounts := Map.empty\<rparr>) = dialogTaskEmployees demoFinance"
    by (simp add: dialogTaskEmployees_def getSelectedTask_def getTaskEmployeeList_def
        split: option.splits)
  have z: "saveEntry (demoFinance\<lparr>employeeAmounts := Map.empty\<rparr>) = demoFinance\<lparr>employeeAmounts := Map.empty\<rparr>"
    by (simp add: saveEntry_def hasEmployees_def d demo_employees demo_fields Let_def)
  show ?thesis
    using saveEntry_entry_invariant [of demoFinance] c n e z by simp
qed

subsection \<open>Subcontract payments of a project\<close>

lemma foldl_amount: "foldl (\<lambda>s v. s + amount v) a es = a + sum_list (map amount es)"
  by (induction es arbitrary: a) simp_all

lemma concat_cells_sum:
  fixes p :: cells
  assumes "distinct (map fst p)"
  shows "sum_list (map amount (filter P (concat (map snd p))))
           = (\<Sum>wi \<in> fst ` set p. sum_list (map amount (filter P (case map_of p wi of None \<Rightarrow> [] | Some es \<Rightarrow> es))))"
  using assms
proof (induction p)
  case Nil
  show ?case by simp
next
  case (Cons c p)
  obtain k es where c: "c = (k, es)" by (cases c)
  from Cons.prems c have k: "k \<notin> fst ` set p" and d: "distinct (map fst p)" by auto
  have same: "(\<Sum>wi \<in> fst ` set p. sum_list (map amount (filter P
                  (case map_of (c # p) wi of None \<Rightarrow> [] | Some es \<Rightarrow> es))))
            = (\<Sum>wi \<in> fst ` set p. sum_list (map amount (filter P
                  (case map_of p wi of None \<Rightarrow> [] | Some es \<Rightarrow> es))))"
    using k by (intro sum.cong) (auto simp: c)
  have "(\<Sum>wi \<in> fst ` set (c # p). sum_list (map amount (filter P
                  (case map_of (c # p) wi of None \<Rightarrow> [] | Some es \<Rightarrow> es))))
        = sum_list (map amount (filter P es))
          + (\<Sum>wi \<in> fst ` set p. sum_list (map amount (filter P
                  (case map_of (c # p) wi of None \<Rightarrow> [] | Some es \<Rightarrow> es))))"
    using k by (simp add: c)
  then show ?case using Cons.IH [OF d] same by (simp add: c)
qed

text \<open>
  C6. The amount paid to a subcontractor of a project is \<open>0\<close> when the project has no
  bucket in the ledger, is the same for every subcontractor id, and is the sum of the
  amounts of all entries of the project whose reason is \<^verbatim>\<open>subcontract\<close>, over all
  periods.
\<close>

theorem subcontractorPaid_project_total:
  "(l projId = None \<longrightarrow> getProjectSubcontractorPaid l projId s = 0) \<and>
   getProjectSubcontractorPaid l projId s = getProjectSubcontractorPaid l projId s' \<and>
   (distinctPeriods l projId \<longrightarrow> getProjectSubcontractorPaid l projId s = subcontractTotal l projId)"
proof (intro conjI impI)
  show "getProjectSubcontractorPaid l projId s = 0" if "l projId = None"
    using that by (simp add: getProjectSubcontractorPaid_def)
  show "getProjectSubcontractorPaid l projId s = getProjectSubcontractorPaid l projId s'"
    by (simp add: getProjectSubcontractorPaid_def)
  show "getProjectSubcontractorPaid l projId s = subcontractTotal l projId" if wf: "distinctPeriods l projId"
  proof (cases "l projId")
    case None
    then show ?thesis
      by (simp add: getProjectSubcontractorPaid_def subcontractTotal_def periods_def)
  next
    case (Some p)
    with wf have "distinct (map fst p)" by (simp add: distinctPeriods_def)
    from concat_cells_sum [OF this, of "\<lambda>e. reason e = Some ''subcontract''"] Some
    show ?thesis
      by (simp add: getProjectSubcontractorPaid_def subcontractTotal_def periods_def
          subcontractEntries_def existingEntries_def cellEntries_def foldl_amount)
  qed
qed

lemma wf_seed: "distinctPeriods buildInitialPayments ''proj-1''"
  by (simp add: distinctPeriods_def buildInitialPayments_def)

theorem subcontractorPaid_project_total_witness:
  "getProjectSubcontractorPaid buildInitialPayments ''proj-1'' ''psub-1'' = 850000 + 320000 \<and>
   getProjectSubcontractorPaid buildInitialPayments ''proj-1'' ''psub-2'' = 850000 + 320000 \<and>
   subcontractTotal buildInitialPayments ''proj-1'' = 1170000 \<and>
   getProjectSubcontractorPaid buildInitialPayments ''proj-5'' ''psub-1'' = 0"
proof -
  have a: "getProjectSubcontractorPaid buildInitialPayments ''proj-1'' ''psub-1'' = 1170000"
    by (simp add: getProjectSubcontractorPaid_def buildInitialPayments_def)
  have n: "buildInitialPayments ''proj-5'' = None"
    by (simp add: buildInitialPayments_def)
  show ?thesis
    using subcontractorPaid_project_total [of buildInitialPayments "''proj-1''" "''psub-1''" "''psub-2''"]
      subcontractorPaid_project_total [of buildInitialPayments "''proj-5''" "''psub-1''" "''psub-1''"]
      wf_seed a n
    by simp
qed

section \<open>Properties of the payroll tab\<close>

lemma keepsProcessed_refl: "keepsProcessed ps ps"
  by (simp add: keepsProcessed_def list_all2_same)

lemma keepsProcessed_trans:
  "keepsProcessed ps qs \<Longrightarrow> keepsProcessed qs rs \<Longrightarrow> keepsProcessed ps rs"
  unfolding keepsProcessed_def
proof -
  assume a: "list_all2 (\<lambda>p p'. payroll_id p' = payroll_id p \<and> (processed p \<longrightarrow> processed p')) ps qs"
    and b: "list_all2 (\<lambda>p p'. payroll_id p' = payroll_id p \<and> (processed p \<longrightarrow> processed p')) qs rs"
  show "list_all2 (\<lambda>p p'. payroll_id p' = payroll_id p \<and> (processed p \<longrightarrow> processed p')) ps rs"
    by (rule list_all2_trans [OF _ a b]) auto
qed

lemma keepsProcessed_map:
  assumes "\<And>p. payroll_id (f p) = payroll_id p" "\<And>p. processed p \<Longrightarrow> processed (f p)"
  shows "keepsProcessed ps (map f ps)"
  using assms by (simp add: keepsProcessed_def list_all2_map2 list_all2_same)

lemma toggleEmployee_keeps:
  "keepsProcessed (localPayrolls st) (localPayrolls (toggleEmployee empId st))"
  by (auto simp: toggleEmployee_def keepsProcessed_refl intro!: keepsProcessed_map)

lemma toggleAll_keeps:
  "keepsProcessed (localPayrolls st) (localPayrolls (toggleAll st))"
  by (auto simp: toggleAll_def Let_def keepsProcessed_refl intro!: keepsProcessed_map)

lemma updateAmount_keeps:
  "keepsProcessed (localPayrolls st) (localPayrolls (updateAmount empId txt parsed st))"
  by (auto simp: updateAmount_def Let_def keepsProcessed_refl intro!: keepsProcessed_map)

lemma processPayroll_keeps:
  "keepsProcessed (localPayrolls st) (localPayrolls (processPayroll st))"
  by (auto simp: processPayroll_def Let_def intro!: keepsProcessed_map)

lemma payrollStep_keeps:
  "keepsProcessed (localPayrolls st) (localPayrolls (payrollStep st a))"
  by (cases a)
    (simp_all add: toggleEmployee_keeps toggleAll_keeps updateAmount_keeps
      processPayroll_keeps keepsProcessed_refl)

lemma payrollStep_global:
  "globalPayrolls (payrollStep st a) = globalPayrolls st \<or>
   globalPayrolls (payrollStep st a) = localPayrolls (payrollStep st a)"
  by (cases a)
    (auto simp: toggleEmployee_def toggleAll_def updateAmount_def processPayroll_def Let_def)

lemma payrollRun_keeps:
  "keepsProcessed (localPayrolls st) (localPayrolls (payrollRun st acts))"
  unfolding payrollRun_def
proof (induction acts arbitrary: st)
  case Nil
  show ?case by (simp add: keepsProcessed_refl)
next
  case (Cons a acts)
  show ?case
    using keepsProcessed_trans [OF payrollStep_keeps [of st a] Cons.IH [of "payrollStep st a"]]
    by simp
qed

lemma payrollRun_global_keeps:
  "keepsProcessed (globalPayrolls st) (localPayrolls st) \<Longrightarrow>
     keepsProcessed (globalPayrolls st) (globalPayrolls (payrollRun st acts)) \<and>
     keepsProcessed (globalPayrolls (payrollRun st acts)) (localPayrolls (payrollRun st acts))"
  unfolding payrollRun_def
proof (induction acts arbitrary: st)
  case Nil
  then show ?case by (simp add: keepsProcessed_refl)
next
  case (Cons a acts)
  let ?s = "payrollStep st a"
  have loc: "keepsProcessed (globalPayrolls st) (localPayrolls ?s)"
    using keepsProcessed_trans [OF Cons.prems payrollStep_keeps] .
  have sync: "keepsProcessed (globalPayrolls ?s) (localPayrolls ?s)"
    using payrollStep_global [of st a] loc by (auto simp: keepsProcessed_refl)
  have glob: "keepsProcessed (globalPayrolls st) (globalPayrolls ?s)"
    using payrollStep_global [of st a] loc by (auto simp: keepsProcessed_refl)
  from Cons.IH [OF sync] glob show ?case
    by (auto intro: keepsProcessed_trans)
qed

lemma processPayroll_idem: "processPayroll (processPayroll st) = processPayroll st"
proof -
  have "map (\<lambda>p. if payroll_id p = s then p\<lparr>processed := True\<rparr> else p)
          (map (\<lambda>p. if payroll_id p = s then p\<lparr>processed := True\<rparr> else p) ps)
        = map (\<lambda>p. if payroll_id p = s then p\<lparr>processed := True\<rparr> else p) ps" for s ps
    by (induction ps) auto
  then show ?thesis by (simp add: processPayroll_def Let_def)
qed

lemma processPayroll_selected:
  "selectedPayroll st = Some p \<Longrightarrow> selectedPayroll (processPayroll st) = Some (p\<lparr>processed := True\<rparr>)"
proof -
  have "find (\<lambda>p. payroll_id p = s) ps = Some p \<Longrightarrow>
        find (\<lambda>p. payroll_id p = s) (map (\<lambda>p. if payroll_id p = s then p\<lparr>processed := True\<rparr> else p) ps)
          = Some (p\<lparr>processed := True\<rparr>)" for s ps
    by (induction ps) (auto split: if_splits)
  then show "selectedPayroll st = Some p \<Longrightarrow> ?thesis"
    by (simp add: selectedPayroll_def processPayroll_def Let_def)
qed

text \<open>
  C4. Processing sets the processed flag of the selected run and changes nothing else of
  it; the module's store receives the same list; processing twice is processing once.
  Over any run of the tab's operations every payroll stays in place and none that was
  processed becomes a draft again, in the component's list and (when the component's
  list had kept the processed runs of the store, as it does from its initial value) in
  the store. On a processed run, toggling a paid flag, overwriting an amount and
  toggling all flags leave the whole state as it is.
\<close>

theorem payroll_one_way:
  "(\<forall>p. selectedPayroll st = Some p \<longrightarrow>
       selectedPayroll (processPayroll st) = Some (p\<lparr>processed := True\<rparr>) \<and>
       isProcessed (processPayroll st)) \<and>
   localPayrolls (processPayroll st)
     = map (\<lambda>p. if payroll_id p = selectedPayrollId st then p\<lparr>processed := True\<rparr> else p)
         (localPayrolls st) \<and>
   globalPayrolls (processPayroll st) = localPayrolls (processPayroll st) \<and>
   processPayroll (processPayroll st) = processPayroll st \<and>
   keepsProcessed (localPayrolls st) (localPayrolls (payrollRun st acts)) \<and>
   (keepsProcessed (globalPayrolls st) (localPayrolls st) \<longrightarrow>
      keepsProcessed (globalPayrolls st) (globalPayrolls (payrollRun st acts))) \<and>
   (isProcessed st \<longrightarrow>
      toggleEmployee empId st = st \<and> updateAmount empId txt parsed st = st \<and> toggleAll st = st)"
proof -
  have sel: "\<forall>p. selectedPayroll st = Some p \<longrightarrow>
       selectedPayroll (processPayroll st) = Some (p\<lparr>processed := True\<rparr>) \<and>
       isProcessed (processPayroll st)"
    by (auto simp: processPayroll_selected isProcessed_def)
  have noop: "isProcessed st \<longrightarrow>
      toggleEmployee empId st = st \<and> updateAmount empId txt parsed st = st \<and> toggleAll st = st"
    by (simp add: toggleEmployee_def updateAmount_def toggleAll_def)
  have upd: "localPayrolls (processPayroll st)
     = map (\<lambda>p. if payroll_id p = selectedPayrollId st then p\<lparr>processed := True\<rparr> else p)
         (localPayrolls st)"
    "globalPayrolls (processPayroll st) = localPayrolls (processPayroll st)"
    by (simp_all add: processPayroll_def Let_def)
  show ?thesis
    using sel noop upd processPayroll_idem [of st] payrollRun_keeps [of st acts]
      payrollRun_global_keeps [of st acts]
    by blast
qed

lemma demo_selected:
  "selectedPayroll (demoTab ''payroll-2026-02-20'') = Some (demoPayrolls ! 1)"
  "selectedPayroll (demoTab ''payroll-2026-01-20'') = Some (demoPayrolls ! 0)"
  by (simp_all add: selectedPayroll_def demoTab_def demoPayrolls_def)

theorem payroll_one_way_witness:
  "\<not> isProcessed (demoTab ''payroll-2026-02-20'') \<and>
   isProcessed (processPayroll (demoTab ''payroll-2026-02-20'')) \<and>
   map processed (globalPayrolls (processPayroll (demoTab ''payroll-2026-02-20''))) = [True, True] \<and>
   isProcessed (demoTab ''payroll-2026-01-20'') \<and>
   toggleEmployee ''user-1'' (demoTab ''payroll-2026-01-20'') = demoTab ''payroll-2026-01-20'' \<and>
   updateAmount ''user-1'' ''1'' (Some 1) (demoTab ''payroll-2026-01-20'') = demoTab ''payroll-2026-01-20'' \<and>
   map processed (localPayrolls (payrollRun (demoTab ''payroll-2026-02-20'')
      [ToggleEmployee ''user-1'', ProcessPayroll, ToggleAll, UpdateAmount ''user-2'' ''7'' (Some 7)]))
     = [True, True]"
proof -
  have a: "\<not> isProcessed (demoTab ''payroll-2026-02-20'')" "isProcessed (demoTab ''payroll-2026-01-20'')"
    by (simp_all add: isProcessed_def demo_selected) (simp_all add: demoPayrolls_def)
  note t1 = payroll_one_way [of "demoTab ''payroll-2026-02-20''" "[]" "''user-1''" "''1''" "Some 1"]
  note t2 = payroll_one_way [of "demoTab ''payroll-2026-01-20''" "[]" "''user-1''" "''1''" "Some 1"]
  from t1 demo_selected(1) have b: "isProcessed (processPayroll (demoTab ''payroll-2026-02-20''))"
    by blast
  from t1 have "globalPayrolls (processPayroll (demoTab ''payroll-2026-02-20''))
     = map (\<lambda>p. if payroll_id p = selectedPayrollId (demoTab ''payroll-2026-02-20'')
                 then p\<lparr>processed := True\<rparr> else p)
         (localPayrolls (demoTab ''payroll-2026-02-20''))"
    by simp
  then have c: "map processed (globalPayrolls (processPayroll (demoTab ''payroll-2026-02-20''))) = [True, True]"
    by (simp add: demoTab_def demoPayrolls_def)
  from t2 a(2) have d: "toggleEmployee ''user-1'' (demoTab ''payroll-2026-01-20'') = demoTab ''payroll-2026-01-20''"
    "updateAmount ''user-1'' ''1'' (Some 1) (demoTab ''payroll-2026-01-20'') = demoTab ''payroll-2026-01-20''"
    by blast+
  have e: "map processed (localPayrolls (payrollRun (demoTab ''payroll-2026-02-20'')
      [ToggleEmployee ''user-1'', ProcessPayroll, ToggleAll, UpdateAmount ''user-2'' ''7'' (Some 7)]))
     = [True, True]"
    by (simp add: payrollRun_def toggleEmployee_def toggleAll_def updateAmount_def
        processPayroll_def isProcessed_def selectedPayroll_def allChecked_def demoTab_def
        demoPayrolls_def Let_def)
  show ?thesis using a b c d e by simp
qed

section \<open>Properties of the remaining-budget tiers\<close>

lemma tiers_distinct: "healthy \<noteq> warning" "healthy \<noteq> critical" "warning \<noteq> critical"
  "healthy \<noteq> []" "warning \<noteq> []" "critical \<noteq> []"
  by (simp_all add: healthy_def warning_def critical_def)

text \<open>
  C5. For a project with a positive budget and \<open>remaining = budget - totalPaid\<close>, the
  class of the remaining amount is the healthy one exactly when \<open>remaining / budget\<close> is
  above \<open>0.5\<close>, the warning one exactly when it is at least \<open>0.1\<close> and at most \<open>0.5\<close>,
  and the critical one exactly when it is below \<open>0.1\<close>; the totals row classifies the
  same way.
\<close>

theorem remaining_tiers:
  "0 < budget \<longrightarrow>
     ((remainingClass budget (budget - totalPaid) = healthy) = ((budget - totalPaid) / budget > 1 / 2)) \<and>
     ((remainingClass budget (budget - totalPaid) = warning)
        = (1 / 10 \<le> (budget - totalPaid) / budget \<and> (budget - totalPaid) / budget \<le> 1 / 2)) \<and>
     ((remainingClass budget (budget - totalPaid) = critical) = ((budget - totalPaid) / budget < 1 / 10)) \<and>
     totalRemainingClass budget (budget - totalPaid) = remainingClass budget (budget - totalPaid)"
  using tiers_distinct by (auto simp: remainingClass_def totalRemainingClass_def)

theorem remaining_tiers_witness:
  "remainingClass 1000 (1000 - 500) = warning \<and> remainingClass 1000 (1000 - 499) = healthy \<and>
   remainingClass 1000 (1000 - 900) = warning \<and> remainingClass 1000 (1000 - 901) = critical \<and>
   totalRemainingClass 1000 (1000 - 500) = warning \<and> totalRemainingClass 1000 (1000 - 901) = critical"
  using remaining_tiers [of 1000 500] remaining_tiers [of 1000 499]
    remaining_tiers [of 1000 900] remaining_tiers [of 1000 901]
  by simp

section \<open>Properties of the period generator\<close>

lemma weekCount_step:
  "cur \<le> lmt \<Longrightarrow> weekCount cur lmt = Suc (weekCount (cur + 7) lmt)"
  unfolding weekCount_def by (auto simp: nat_add_distrib) 

lemma weeklySequence_step:
  "cur \<le> lmt \<Longrightarrow> weeklySequence cur lmt = cur # weeklySequence (cur + 7) lmt"
  by (simp add: weeklySequence_def weekCount_step upt_conv_Cons map_Suc_upt [symmetric] algebra_simps
      del: upt_Suc)

lemma weeklySequence_empty: "\<not> cur \<le> lmt \<Longrightarrow> weeklySequence cur lmt = []"
  by (simp add: weeklySequence_def weekCount_def)

lemma weeksLoop_closed: "weeksLoop cur lmt ws = ws @ weeklySequence cur lmt"
proof (induction cur lmt ws rule: weeksLoop.induct)
  case (1 current limit weeks)
  show ?case
  proof (cases "current \<le> limit")
    case True
    with "1" show ?thesis
      by (subst weeksLoop.simps) (simp add: addWeeks_def weeklySequence_step)
  next
    case False
    then show ?thesis
      by (subst weeksLoop.simps) (simp add: weeklySequence_empty)
  qed
qed


lemma Math_min_Min: "Math_min x xs = Min (set (x # xs))"
proof -
  have "foldl min x xs = fold min xs x" by (simp add: foldl_conv_fold min.commute)
  then show ?thesis unfolding Math_min_def by (simp only: Min.set_eq_fold)
qed

lemma Math_max_Max: "Math_max x xs = Max (set (x # xs))"
proof -
  have "foldl max x xs = fold max xs x" by (simp add: foldl_conv_fold max.commute)
  then show ?thesis unfolding Math_max_def by (simp only: Max.set_eq_fold)
qed

lemma startOfWeek_alt: "startOfWeek d = d - (d + 3) mod 7"
proof (cases "(d + 4) mod 7 = 0")
  case True
  then have "(d + 3) mod 7 = 6" by presburger
  with True show ?thesis by (simp add: startOfWeek_def getDay_def)
next
  case False
  then have "(d + 3) mod 7 = (d + 4) mod 7 - 1" by presburger
  moreover have "\<not> (d + 4) mod 7 < 1" using False by presburger
  ultimately show ?thesis by (simp add: startOfWeek_def getDay_def Let_def)
qed

lemma startOfWeek_monday: "isMondayOfWeekOf (startOfWeek d) d"
proof -
  have "(d - (d + 3) mod 7 + 4) mod 7 = 1" by presburger
  moreover have "0 \<le> (d + 3) mod 7" "(d + 3) mod 7 < 7" by simp_all
  ultimately show ?thesis
    by (simp add: isMondayOfWeekOf_def startOfWeek_alt getDay_def)
qed

lemma getDay_add_weeks: "getDay (d + 7 * k) = getDay d"
  unfolding getDay_def by presburger

lemma length_weeklySequence: "length (weeklySequence first lmt) = weekCount first lmt"
  by (simp add: weeklySequence_def)

lemma nth_weeklySequence:
  "k < weekCount first lmt \<Longrightarrow> weeklySequence first lmt ! k = first + 7 * int k"
  by (simp add: weeklySequence_def)

lemma weeklySequence_spaced: "weeklySpaced (weeklySequence first lmt)"
  by (auto simp: weeklySpaced_def length_weeklySequence nth_weeklySequence)

lemma weeklySequence_increasing: "sorted_wrt (<) (weeklySequence first lmt)"
  by (auto simp: sorted_wrt_iff_nth_less length_weeklySequence nth_weeklySequence)

lemma weeklySequence_weekday:
  "list_all (\<lambda>d. getDay d = getDay first) (weeklySequence first lmt)"
  by (simp add: weeklySequence_def list_all_iff getDay_add_weeks)

lemma weeklySequence_ends:
  assumes "first \<le> lmt"
  shows "weeklySequence first lmt \<noteq> []" "hd (weeklySequence first lmt) = first"
    "last (weeklySequence first lmt) \<le> lmt" "lmt < last (weeklySequence first lmt) + 7"
proof -
  let ?n = "weekCount first lmt"
  have n: "?n = nat ((lmt - first) div 7 + 1)" "0 < ?n"
    using assms by (simp_all add: weekCount_def)
  then show ne: "weeklySequence first lmt \<noteq> []"
    using length_weeklySequence [of first lmt] by auto
  show "hd (weeklySequence first lmt) = first"
    using n nth_weeklySequence [of 0 first lmt] ne by (simp add: hd_conv_nth)
  have l: "last (weeklySequence first lmt) = first + 7 * int (?n - 1)"
    using n ne nth_weeklySequence [of "?n - 1" first lmt]
    by (simp add: last_conv_nth length_weeklySequence)
  have k: "int (?n - 1) = (lmt - first) div 7"
    using assms n by simp
  show "last (weeklySequence first lmt) \<le> lmt" "lmt < last (weeklySequence first lmt) + 7"
    unfolding l k using assms by presburger+
qed

lemma generateWeeks_closed:
  assumes "ps \<noteq> []"
  shows "generateWeeks ps
       = weeklySequence (startOfWeek (Min (set (map startDate ps)))) (Max (set (map endDate ps)) + 14)"
proof (cases ps)
  case Nil
  with assms show ?thesis by simp
next
  case (Cons p qs)
  have "generateWeeks (p # qs)
          = weeksLoop (startOfWeek (Math_min (startDate p) (map startDate qs)))
              (addWeeks (Math_max (endDate p) (map endDate qs)) 2) []"
    by (simp only: generateWeeks.simps Let_def)
  also have "\<dots> = weeklySequence (startOfWeek (Min (set (startDate p # map startDate qs))))
              (Max (set (endDate p # map endDate qs)) + 14)"
    by (simp only: weeksLoop_closed Math_min_Min Math_max_Max addWeeks_def append_Nil) simp
  finally show ?thesis by (simp only: Cons list.map)
qed

lemma generateWeeksHalfYear_closed:
  "\<exists>d lmt. generateWeeksHalfYear year month = weeklySequence (startOfWeek d) lmt"
  unfolding generateWeeksHalfYear_def Let_def weeksLoop_closed append_Nil by blast

lemma short_weeks:
  "generateWeeks [shortProject]
     = [daysFromCivil 2024 2 26, daysFromCivil 2024 3 4, daysFromCivil 2024 3 11, daysFromCivil 2024 3 18]"
  by code_simp

lemma half_year_weeks:
  "length (generateWeeksHalfYear 2026 10) = 27"
  "take 2 (generateWeeksHalfYear 2026 10) = [daysFromCivil 2026 6 29, daysFromCivil 2026 7 6]"
  "last (generateWeeksHalfYear 2026 10) = daysFromCivil 2026 12 28"
  by code_simp+

lemma demo_dates:
  "Min (set (map startDate demoProjects)) = daysFromCivil 2024 1 15"
  "Max (set (map endDate demoProjects)) + 14 = daysFromCivil 2025 1 13"
  "startOfWeek (daysFromCivil 2024 1 15) = daysFromCivil 2024 1 15"
  by (simp_all add: demoProjects_def daysFromCivil_def startOfWeek_def getDay_def)

text \<open>
  C7. For an empty project list the range-derived generator returns the empty sequence.
  For a non-empty list it returns the week-starts \<open>first, first + 7, first + 14, \<dots>\<close> that
  are not after \<open>limit\<close>, where \<open>first\<close> is the Monday of the week that contains the
  earliest start date and \<open>limit\<close> is the latest end date plus 14 days: when
  \<open>first \<le> limit\<close> the sequence begins at \<open>first\<close>, steps by exactly 7 days and ends with
  the last week-start not after \<open>limit\<close> (when \<open>limit < first\<close> no week-start qualifies).
\<close>

theorem generateWeeks_range:
  "generateWeeks [] = [] \<and>
   (ps \<noteq> [] \<longrightarrow>
      (let earliest = Min (set (map startDate ps));
           first = startOfWeek earliest;
           limit = Max (set (map endDate ps)) + 14
       in isMondayOfWeekOf first earliest \<and>
          generateWeeks ps = weeklySequence first limit \<and>
          weeklySpaced (generateWeeks ps) \<and>
          (first \<le> limit \<longrightarrow>
             generateWeeks ps \<noteq> [] \<and> hd (generateWeeks ps) = first \<and>
             last (generateWeeks ps) \<le> limit \<and> limit < last (generateWeeks ps) + 7) \<and>
          (limit < first \<longrightarrow> generateWeeks ps = [])))"
proof (intro conjI impI)
  show "generateWeeks [] = []" by simp
next
  assume ne: "ps \<noteq> []"
  define earliest where "earliest = Min (set (map startDate ps))"
  define first where "first = startOfWeek earliest"
  define limit where "limit = Max (set (map endDate ps)) + 14"
  have gen: "generateWeeks ps = weeklySequence first limit"
    unfolding first_def earliest_def limit_def using ne by (rule generateWeeks_closed)
  have mon: "isMondayOfWeekOf first earliest"
    unfolding first_def by (rule startOfWeek_monday)
  have spaced: "weeklySpaced (generateWeeks ps)"
    unfolding gen by (rule weeklySequence_spaced)
  have ends: "first \<le> limit \<longrightarrow>
             generateWeeks ps \<noteq> [] \<and> hd (generateWeeks ps) = first \<and>
             last (generateWeeks ps) \<le> limit \<and> limit < last (generateWeeks ps) + 7"
    unfolding gen using weeklySequence_ends [of first limit] by blast
  have none: "limit < first \<longrightarrow> generateWeeks ps = []"
    unfolding gen by (simp add: weeklySequence_empty)
  show "let earliest = Min (set (map startDate ps));
           first = startOfWeek earliest;
           limit = Max (set (map endDate ps)) + 14
       in isMondayOfWeekOf first earliest \<and>
          generateWeeks ps = weeklySequence first limit \<and>
          weeklySpaced (generateWeeks ps) \<and>
          (first \<le> limit \<longrightarrow>
             generateWeeks ps \<noteq> [] \<and> hd (generateWeeks ps) = first \<and>
             last (generateWeeks ps) \<le> limit \<and> limit < last (generateWeeks ps) + 7) \<and>
          (limit < first \<longrightarrow> generateWeeks ps = [])"
    unfolding Let_def earliest_def [symmetric] first_def [symmetric] limit_def [symmetric]
    using mon gen spaced ends none by blast
qed

theorem generateWeeks_range_witness:
  "generateWeeks [shortProject]
     = [daysFromCivil 2024 2 26, daysFromCivil 2024 3 4, daysFromCivil 2024 3 11, daysFromCivil 2024 3 18] \<and>
   hd (generateWeeks demoProjects) = daysFromCivil 2024 1 15 \<and>
   last (generateWeeks demoProjects) \<le> daysFromCivil 2025 1 13 \<and>
   daysFromCivil 2025 1 13 < last (generateWeeks demoProjects) + 7"
proof -
  have ne: "demoProjects \<noteq> []" by (simp add: demoProjects_def)
  have le: "daysFromCivil 2024 1 15 \<le> daysFromCivil 2025 1 13"
    by (simp add: daysFromCivil_def)
  have "hd (generateWeeks demoProjects) = daysFromCivil 2024 1 15 \<and>
        last (generateWeeks demoProjects) \<le> daysFromCivil 2025 1 13 \<and>
        daysFromCivil 2025 1 13 < last (generateWeeks demoProjects) + 7"
    using generateWeeks_range [of demoProjects] ne le
    unfolding Let_def demo_dates by blast
  with short_weeks show ?thesis by simp
qed

text \<open>
  C8. Whatever the projects and whatever the current year and month, the sequence of either
  generator is strictly increasing, its consecutive elements differ by exactly 7 days,
  and every element is a Monday.
\<close>

theorem generated_weeks_weekly:
  "weeklySpaced (generateWeeks ps) \<and> sorted_wrt (<) (generateWeeks ps) \<and>
   list_all (\<lambda>d. getDay d = 1) (generateWeeks ps) \<and>
   weeklySpaced (generateWeeksHalfYear year month) \<and>
   sorted_wrt (<) (generateWeeksHalfYear year month) \<and>
   list_all (\<lambda>d. getDay d = 1) (generateWeeksHalfYear year month)"
proof -
  have mon: "getDay (startOfWeek d) = 1" for d
    using startOfWeek_monday [of d] by (simp add: isMondayOfWeekOf_def)
  have a: "weeklySpaced (generateWeeks ps) \<and> sorted_wrt (<) (generateWeeks ps) \<and>
      list_all (\<lambda>d. getDay d = 1) (generateWeeks ps)"
  proof (cases "ps = []")
    case True
    then show ?thesis by (simp add: weeklySpaced_def)
  next
    case False
    then show ?thesis
      using weeklySequence_weekday [of "startOfWeek (Min (set (map startDate ps)))"]
      by (simp add: generateWeeks_closed weeklySequence_spaced weeklySequence_increasing mon)
  qed
  obtain d lmt where h: "generateWeeksHalfYear year month = weeklySequence (startOfWeek d) lmt"
    using generateWeeksHalfYear_closed by blast
  have b: "weeklySpaced (generateWeeksHalfYear year month) \<and>
      sorted_wrt (<) (generateWeeksHalfYear year month) \<and>
      list_all (\<lambda>d. getDay d = 1) (generateWeeksHalfYear year month)"
    using weeklySequence_weekday [of "startOfWeek d" lmt]
    by (simp add: h weeklySequence_spaced weeklySequence_increasing mon)
  show ?thesis using a b by simp
qed

theorem generated_weeks_weekly_witness:
  "weeklySpaced (generateWeeks demoProjects) \<and> sorted_wrt (<) (generateWeeks demoProjects) \<and>
   list_all (\<lambda>d. getDay d = 1) (generateWeeks demoProjects) \<and>
   weeklySpaced (generateWeeksHalfYear 2026 10) \<and> sorted_wrt (<) (generateWeeksHalfYear 2026 10) \<and>
   list_all (\<lambda>d. getDay d = 1) (generateWeeksHalfYear 2026 10) \<and>
   length (generateWeeksHalfYear 2026 10) = 27 \<and>
   take 2 (generateWeeksHalfYear 2026 10) = [daysFromCivil 2026 6 29, daysFromCivil 2026 7 6] \<and>
   last (generateWeeksHalfYear 2026 10) = daysFromCivil 2026 12 28"
  using generated_weeks_weekly [of demoProjects 2026 10] half_year_weeks by simp

section \<open>Properties of the mock API\<close>

lemma firstReply_None: "firstReply rs = None \<longleftrightarrow> (\<forall>r \<in> set rs. r = None)"
  by (induction rs rule: firstReply.induct) auto

lemma no_route_matches:
  assumes "\<not> list_ex (routeMatches method rawPath) definedRoutes" "r \<in> set definedRoutes"
  shows "\<not> routeMatches method rawPath r"
  using assms by (auto simp: list_ex_iff)

lemma departmentRoutes_unmatched:
  assumes "\<not> list_ex (routeMatches method rawPath) definedRoutes"
  shows "departmentRoutes method rawPath = None"
  using
    no_route_matches [OF assms, of "(Some ''GET'', Literal ''/departments'')"]
    no_route_matches [OF assms, of "(Some ''POST'', Literal ''/departments'')"]
    no_route_matches [OF assms, of "(Some ''PATCH'', Pattern ''/departments/:id'')"]
    no_route_matches [OF assms, of "(Some ''DELETE'', Pattern ''/departments/:id'')"]
  by (auto simp: definedRoutes_def departmentRoutes_def Let_def)

lemma userRoutes_unmatched:
  assumes "\<not> list_ex (routeMatches method rawPath) definedRoutes"
  shows "userRoutes method rawPath = None"
  using
    no_route_matches [OF assms, of "(Some ''GET'', Literal ''/users'')"]
    no_route_matches [OF assms, of "(Some ''POST'', Literal ''/users'')"]
    no_route_matches [OF assms, of "(Some ''PATCH'', Pattern ''/users/:id'')"]
    no_route_matches [OF assms, of "(Some ''DELETE'', Pattern ''/users/:id'')"]
  by (auto simp: definedRoutes_def userRoutes_def Let_def)

lemma contractorRoutes_unmatched:
  assumes "\<not> list_ex (routeMatches method rawPath) definedRoutes"
  shows "contractorRoutes method rawPath = None"
  using
    no_route_matches [OF assms, of "(Some ''GET'', Literal ''/contractors'')"]
    no_route_matches [OF assms, of "(Some ''POST'', Literal ''/contractors'')"]
    no_route_matches [OF assms, of "(Some ''GET'', Pattern ''/contractors/:id'')"]
    no_route_matches [OF assms, of "(Some ''PATCH'', Pattern ''/contractors/:id'')"]
    no_route_matches [OF assms, of "(Some ''DELETE'', Pattern ''/contractors/:id'')"]
  by (auto simp: definedRoutes_def contractorRoutes_def Let_def)

lemma projectRoutes_unmatched:
  assumes "\<not> list_ex (routeMatches method rawPath) definedRoutes"
  shows "projectRoutes method rawPath = None"
  using
    no_route_matches [OF assms, of "(Some ''GET'', Literal ''/projects'')"]
    no_route_matches [OF assms, of "(Some ''POST'', Literal ''/projects'')"]
    no_route_matches [OF assms, of "(Some ''GET'', Pattern ''/projects/:id'')"]
    no_route_matches [OF assms, of "(Some ''PATCH'', Pattern ''/projects/:id'')"]
    no_route_matches [OF assms, of "(Some ''DELETE'', Pattern ''/projects/:id'')"]
    no_route_matches [OF assms, of "(Some ''POST'', Pattern ''/projects/:id/restore'')"]
  by (auto simp: definedRoutes_def projectRoutes_def Let_def)

lemma projectMemberRoutes_unmatched:
  assumes "\<not> list_ex (routeMatches method rawPath) definedRoutes"
  shows "projectMemberRoutes method rawPath = None"
  using
    no_route_matches [OF assms, of "(Some ''GET'', Pattern ''/projects/:id/members'')"]
  by (auto simp: definedRoutes_def projectMemberRoutes_def Let_def)

lemma projectTaskRoutes_unmatched:
  assumes "\<not> list_ex (routeMatches method rawPath) definedRoutes"
  shows "projectTaskRoutes method rawPath = None"
  using
    no_route_matches [OF assms, of "(Some ''GET'', Pattern ''/projects/:id/tasks'')"]
  by (auto simp: definedRoutes_def projectTaskRoutes_def Let_def)

lemma projectSubcontractorRoutes_unmatched:
  assumes "\<not> list_ex (routeMatches method rawPath) definedRoutes"
  shows "projectSubcontractorRoutes method rawPath = None"
  using
    no_route_matches [OF assms, of "(Some ''GET'', Pattern ''/projects/:id/subcontractors'')"]
  by (auto simp: definedRoutes_def projectSubcontractorRoutes_def Let_def)

lemma projectSectionRoutes_unmatched:
  assumes "\<not> list_ex (routeMatches method rawPath) definedRoutes"
  shows "projectSectionRoutes method rawPath = None"
  using
    no_route_matches [OF assms, of "(Some ''GET'', Pattern ''/projects/:id/sections'')"]
    no_route_matches [OF assms, of "(Some ''PUT'', Pattern ''/projects/:id/sections'')"]
  by (auto simp: definedRoutes_def projectSectionRoutes_def Let_def)

lemma taskRoutes_unmatched:
  assumes "\<not> list_ex (routeMatches method rawPath) definedRoutes"
  shows "taskRoutes method rawPath = None"
  using
    no_route_matches [OF assms, of "(Some ''GET'', Literal ''/tasks'')"]
    no_route_matches [OF assms, of "(Some ''POST'', Literal ''/tasks'')"]
    no_route_matches [OF assms, of "(Some ''GET'', Pattern ''/tasks/:id'')"]
    no_route_matches [OF assms, of "(Some ''PATCH'', Pattern ''/tasks/:id'')"]
    no_route_matches [OF assms, of "(Some ''DELETE'', Pattern ''/tasks/:id'')"]
  by (auto simp: definedRoutes_def taskRoutes_def Let_def)

lemma subcontractRequestRoutes_unmatched:
  assumes "\<not> list_ex (routeMatches method rawPath) definedRoutes"
  shows "subcontractRequestRoutes method rawPath = None"
  using
    no_route_matches [OF assms, of "(Some ''GET'', Literal ''/subcontracts/requests'')"]
  by (auto simp: definedRoutes_def subcontractRequestRoutes_def Let_def)

lemma timeTrackingRoutes_unmatched:
  assumes "\<not> list_ex (routeMatches method rawPath) definedRoutes"
  shows "timeTrackingRoutes method rawPath = None"
  using
    no_route_matches [OF assms, of "(Some ''GET'', Literal ''/time-tracking/entries'')"]
    no_route_matches [OF assms, of "(Some ''POST'', Literal ''/time-tracking/entries'')"]
  by (auto simp: definedRoutes_def timeTrackingRoutes_def Let_def)

lemma dayOffRoutes_unmatched:
  assumes "\<not> list_ex (routeMatches method rawPath) definedRoutes"
  shows "dayOffRoutes method rawPath = None"
  using
    no_route_matches [OF assms, of "(Some ''GET'', Literal ''/time-tracking/day-offs'')"]
    no_route_matches [OF assms, of "(Some ''POST'', Literal ''/time-tracking/day-offs'')"]
  by (auto simp: definedRoutes_def dayOffRoutes_def Let_def)

lemma stubRoutes_unmatched:
  assumes "\<not> list_ex (routeMatches method rawPath) definedRoutes"
  shows "stubRoutes method rawPath = None"
  using
    no_route_matches [OF assms, of "(None, Pattern ''/projects/:id/files'')"]
    no_route_matches [OF assms, of "(Some ''GET'', Pattern ''/projects/:id/messages'')"]
    no_route_matches [OF assms, of "(Some ''POST'', Pattern ''/projects/:id/messages'')"]
    no_route_matches [OF assms, of "(None, Pattern ''/contractors/:id/projects'')"]
    no_route_matches [OF assms, of "(None, Literal ''/auth/refresh'')"]
  by (auto simp: definedRoutes_def stubRoutes_def Let_def)

lemma dispatch_unmatched:
  assumes "\<not> list_ex (routeMatches method rawPath) definedRoutes"
  shows "dispatch method rawPath = None"
  unfolding dispatch_def firstReply_None
  using departmentRoutes_unmatched [OF assms]
    userRoutes_unmatched [OF assms]
    contractorRoutes_unmatched [OF assms]
    projectRoutes_unmatched [OF assms]
    projectMemberRoutes_unmatched [OF assms]
    projectTaskRoutes_unmatched [OF assms]
    projectSubcontractorRoutes_unmatched [OF assms]
    projectSectionRoutes_unmatched [OF assms]
    taskRoutes_unmatched [OF assms]
    subcontractRequestRoutes_unmatched [OF assms]
    timeTrackingRoutes_unmatched [OF assms]
    dayOffRoutes_unmatched [OF assms]
    stubRoutes_unmatched [OF assms]
  by simp


text \<open>
  C9 (as amended). For every request whose method and path match none of the defined
  routes and whose body is absent or parses as JSON, \<open>apiFetch\<close> logs one warning, naming
  the method and the path, and resolves to the empty array. A body that does not parse
  makes the call fail with a \<^verbatim>\<open>SyntaxError\<close> before any route is tried, and
  nothing is logged.
\<close>

theorem apiFetch_fallback:
  "(unmatched req \<and> body req \<noteq> InvalidJson \<longrightarrow>
      apiFetch req = (Inr EmptyArray, [unhandledWarning req])) \<and>
   (body req = InvalidJson \<longrightarrow> apiFetch req = (Inl SyntaxError, []))"
proof (intro conjI impI)
  assume h: "unmatched req \<and> body req \<noteq> InvalidJson"
  then have "dispatch (requestMethod req) (requestRawPath req) = None"
    by (intro dispatch_unmatched) (simp add: unmatched_def)
  with h show "apiFetch req = (Inr EmptyArray, [unhandledWarning req])"
    by (simp add: apiFetch_def mockApiFetch_def unhandledWarning_def Let_def)
next
  assume "body req = InvalidJson"
  then show "apiFetch req = (Inl SyntaxError, [])"
    by (simp add: apiFetch_def mockApiFetch_def Let_def)
qed

lemma unmatched_examples:
  "unmatched \<lparr>path = ''/nope?x=1'', meth = Some ''get'', body = Absent\<rparr>"
  "unmatched \<lparr>path = ''/departments/'', meth = Some ''POST'', body = JsonText\<rparr>"
  "unmatched \<lparr>path = ''/nope'', meth = None, body = InvalidJson\<rparr>"
  by code_simp+

lemma warning_examples:
  "unhandledWarning \<lparr>path = ''/nope?x=1'', meth = Some ''get'', body = Absent\<rparr>
     = ''[MockAPI] Unhandled: GET /nope?x=1''"
  "unhandledWarning \<lparr>path = ''/departments/'', meth = Some ''POST'', body = JsonText\<rparr>
     = ''[MockAPI] Unhandled: POST /departments/''"
  by code_simp+

theorem apiFetch_fallback_witness:
  "apiFetch \<lparr>path = ''/nope?x=1'', meth = Some ''get'', body = Absent\<rparr>
     = (Inr EmptyArray, [''[MockAPI] Unhandled: GET /nope?x=1'']) \<and>
   apiFetch \<lparr>path = ''/departments/'', meth = Some ''POST'', body = JsonText\<rparr>
     = (Inr EmptyArray, [''[MockAPI] Unhandled: POST /departments/''])"
  using apiFetch_fallback [of "\<lparr>path = ''/nope?x=1'', meth = Some ''get'', body = Absent\<rparr>"]
    apiFetch_fallback [of "\<lparr>path = ''/departments/'', meth = Some ''POST'', body = JsonText\<rparr>"]
    unmatched_examples(1,2)
  by (simp add: warning_examples)

text \<open>
  A request for a path that no route serves, with a body that is not JSON: the call
  throws instead of returning the empty collection.
\<close>

theorem apiFetch_fallback_counterexample:
  "unmatched \<lparr>path = ''/nope'', meth = None, body = InvalidJson\<rparr> \<and>
   apiFetch \<lparr>path = ''/nope'', meth = None, body = InvalidJson\<rparr> = (Inl SyntaxError, []) \<and>
   fst (apiFetch \<lparr>path = ''/nope'', meth = None, body = InvalidJson\<rparr>) \<noteq> Inr EmptyArray"
  using unmatched_examples(3) by (simp add: apiFetch_def mockApiFetch_def Let_def)

end
